(* ===== verification/Prelude.thy ===== *)
theory Prelude
  imports Main "HOL-Library.Word"
begin

text \<open>
  Shared vocabulary of the development. JavaScript strings are sequences of UTF-16 code
  units (\<open>jstr\<close>, a list of \<open>16 word\<close>); Node buffers are byte lists (\<open>bytes\<close>, a list of
  \<open>8 word\<close>). ASCII text that the plugin writes literally (method names, messages, URL
  prefixes) is written as HOL strings and lifted to code units by \<open>js_of_ascii\<close>.
  Errors thrown by the plugin are values of \<open>js_error\<close>, with the message that the
  handler reads through \<open>error.message\<close>. The collection \<open>codec_simps\<close> gathers the
  evaluation rules the encoders' proofs share.
\<close>

named_theorems codec_simps "evaluation rules of the encoders and decoders"

type_synonym u8 = "8 word"
type_synonym u16 = "16 word"
type_synonym bytes = "u8 list"
type_synonym jstr = "u16 list"

definition js_of_ascii :: "string \<Rightarrow> jstr" where
  "js_of_ascii s = map (\<lambda>c. of_nat (of_char c)) s"

text \<open>JavaScript exceptions the plugin raises or provokes: \<open>new Error(msg)\<close> and the
  runtime's \<open>TypeError\<close> for a property read on \<open>undefined\<close> or \<open>null\<close>.\<close>

datatype js_error = Error string | TypeError string

fun error_message :: "js_error \<Rightarrow> string" where
  "error_message (Error m) = m"
| "error_message (TypeError m) = m"

text \<open>The code units ECMAScript treats as WhiteSpace or LineTerminator (trimmed by
  \<open>String.prototype.trim\<close> and skipped by \<open>parseFloat\<close>).\<close>

definition is_js_space :: "u16 \<Rightarrow> bool" where
  "is_js_space u \<longleftrightarrow>
     (let k = unat u in
      (0x09 \<le> k \<and> k \<le> 0x0D) \<or> k = 0x20 \<or> k = 0xA0 \<or> k = 0x1680 \<or>
      (0x2000 \<le> k \<and> k \<le> 0x200A) \<or> k = 0x2028 \<or> k = 0x2029 \<or> k = 0x202F \<or>
      k = 0x205F \<or> k = 0x3000 \<or> k = 0xFEFF)"

text \<open>\<open>Array.prototype.join(sep)\<close> on a list of strings.\<close>

fun js_join :: "'a list \<Rightarrow> 'a list list \<Rightarrow> 'a list" where
  "js_join sep [] = []"
| "js_join sep [x] = x"
| "js_join sep (x # xs) = x @ sep @ js_join sep xs"

subsection \<open>Lemmas shared by the components\<close>

lemma js_of_ascii_simps [simp]:
  "js_of_ascii [] = []"
  "js_of_ascii (c # cs) = of_nat (of_char c) # js_of_ascii cs"
  "js_of_ascii (xs @ ys) = js_of_ascii xs @ js_of_ascii ys"
  by (simp_all add: js_of_ascii_def)

lemma length_js_of_ascii [simp]: "length (js_of_ascii s) = length s"
  by (simp add: js_of_ascii_def)

lemma js_of_ascii_eq_Nil [simp]: "js_of_ascii s = [] \<longleftrightarrow> s = []"
  by (simp add: js_of_ascii_def)

lemma unat_of_nat_u8 [simp]: "n < 256 \<Longrightarrow> unat (of_nat n :: u8) = n"
  by (simp add: unat_of_nat)

lemma unat_of_nat_u16 [simp]: "n < 65536 \<Longrightarrow> unat (of_nat n :: u16) = n"
  by (simp add: unat_of_nat)

lemma unat_js_of_ascii_nth:
  "i < length s \<Longrightarrow> unat (js_of_ascii s ! i) = of_char (s ! i)"
proof -
  assume "i < length s"
  moreover have "of_char (s ! i) < (65536::nat)"
    using nat_of_char_less_256[of "s ! i"] by linarith
  ultimately show ?thesis
    by (simp add: js_of_ascii_def)
qed

text \<open>An 8-bit word is determined by its eight bits; the bit index is split into its
  eight values so that \<open>bit_simps\<close> evaluates every bit of a numeral.\<close>

lemma u8_bit_index_cases:
  "(n::nat) < LENGTH(8) \<Longrightarrow>
     n = 0 \<or> n = 1 \<or> n = 2 \<or> n = 3 \<or> n = 4 \<or> n = 5 \<or> n = 6 \<or> n = 7"
  by simp arith

lemma u8_bitwise_eqI:
  fixes a b :: u8
  assumes "\<And>n. n = 0 \<or> n = 1 \<or> n = 2 \<or> n = 3 \<or> n = 4 \<or> n = 5 \<or> n = 6 \<or> n = 7
              \<Longrightarrow> bit a n = bit b n"
  shows "a = b"
  using assms u8_bit_index_cases by (blast intro: bit_word_eqI)

lemma unat_u8_lt_256: "unat (x::u8) < 256"
  using unsigned_less[of x] by simp

lemma unat_u16_lt_65536: "unat (x::u16) < 65536"
  using unsigned_less[of x] by simp

text \<open>Base-64 digit expansions of a natural number (the 6-bit groups of UTF-8).\<close>

lemma nat_div64_twice: "(n::nat) div 4096 = n div 64 div 64"
  using div_mult2_eq[of n 64 64] by simp

lemma nat_digits64_3: "(n::nat) div 4096 * 4096 + n div 64 mod 64 * 64 + n mod 64 = n"
proof -
  have a: "n div 4096 = n div 64 div 64" by (rule nat_div64_twice)
  have b: "n div 64 div 64 * 64 + n div 64 mod 64 = n div 64" by (rule div_mult_mod_eq)
  have c: "n div 64 * 64 + n mod 64 = n" by (rule div_mult_mod_eq)
  from a b c show ?thesis by linarith
qed

lemma nat_digits64_4:
  "(n::nat) div 262144 * 262144 + n div 4096 mod 64 * 4096 + n div 64 mod 64 * 64 + n mod 64 = n"
proof -
  have "n div 262144 = n div 4096 div 64"
    using div_mult2_eq[of n 4096 64] by simp
  moreover have "n div 4096 div 64 * 64 + n div 4096 mod 64 = n div 4096" by simp
  moreover have "n div 4096 * 4096 + n div 64 mod 64 * 64 + n mod 64 = n"
    by (rule nat_digits64_3)
  ultimately show ?thesis by linarith
qed

text \<open>Hexadecimal digit expansion of a 16-bit value (the \<open>\\uXXXX\<close> escapes of JSON).\<close>

lemma nat_digits16_4:
  "(n::nat) div 4096 * 4096 + n div 256 mod 16 * 256 + n div 16 mod 16 * 16 + n mod 16 = n"
proof -
  have a: "n div 4096 = n div 256 div 16"
    using div_mult2_eq[of n 256 16] by simp
  have b: "n div 256 = n div 16 div 16"
    using div_mult2_eq[of n 16 16] by simp
  have c: "n div 256 div 16 * 16 + n div 256 mod 16 = n div 256" by (rule div_mult_mod_eq)
  have d: "n div 16 div 16 * 16 + n div 16 mod 16 = n div 16" by (rule div_mult_mod_eq)
  have e: "n div 16 * 16 + n mod 16 = n" by (rule div_mult_mod_eq)
  from a b c d e show ?thesis by linarith
qed

end
