(* ===== verification/Base64.thy ===== *)
theory Base64
  imports Prelude
begin

text \<open>
  Base64 as Node's \<open>Buffer.prototype.toString('base64')\<close> produces it (RFC 4648, standard
  alphabet, \<open>=\<close> padding), used on line 4 of
  \<open>src/packages/plugin-celestia/src/functions/encodeDataToBase64String.ts\<close>.
  Each group of three bytes is split into four 6-bit indices with \<open>drop_bit\<close>,
  \<open>push_bit\<close> and \<open>AND\<close>, and each index is looked up in the alphabet table; a last
  group of one or two bytes is padded. The strict decoder \<open>base64_decode\<close> is the
  inverse the specification's round-trip property refers to (decode, then JSON-parse).
  Lemmas: the decoder inverts the encoder, the encoder's output length and alphabet, the
  arithmetic decoding of a character equals the position of the character in the
  alphabet table, and the decoder accepts exactly the encoder's outputs.
\<close>

unbundle bit_operations_syntax

definition b64_alphabet :: string where
  "b64_alphabet = ''ABCDEFGHIJKLMNOPQRSTUVWXYZabcdefghijklmnopqrstuvwxyz0123456789+/''"

definition b64_char :: "u8 \<Rightarrow> char" where
  "b64_char i = b64_alphabet ! unat (i AND 63)"

fun base64_encode :: "bytes \<Rightarrow> string" where
  "base64_encode (a # b # c # rest) =
     [b64_char (drop_bit 2 a),
      b64_char (push_bit 4 (a AND 3) OR drop_bit 4 b),
      b64_char (push_bit 2 (b AND 15) OR drop_bit 6 c),
      b64_char (c AND 63)] @ base64_encode rest"
| "base64_encode [a, b] =
     [b64_char (drop_bit 2 a),
      b64_char (push_bit 4 (a AND 3) OR drop_bit 4 b),
      b64_char (push_bit 2 (b AND 15)),
      CHR ''='']"
| "base64_encode [a] =
     [b64_char (drop_bit 2 a), b64_char (push_bit 4 (a AND 3)), CHR ''='', CHR ''='']"
| "base64_encode [] = []"

subsection \<open>The strict decoder\<close>

definition b64_index :: "char \<Rightarrow> u8 option" where
  "b64_index c =
     (let k = of_char c :: nat in
      if 65 \<le> k \<and> k \<le> 90 then Some (of_nat (k - 65))
      else if 97 \<le> k \<and> k \<le> 122 then Some (of_nat (k - 71))
      else if 48 \<le> k \<and> k \<le> 57 then Some (of_nat (k + 4))
      else if k = 43 then Some 62
      else if k = 47 then Some 63
      else None)"

definition b64_join :: "u8 \<Rightarrow> u8 \<Rightarrow> u8 \<Rightarrow> u8 \<Rightarrow> bytes" where
  "b64_join i0 i1 i2 i3 =
     [push_bit 2 i0 OR drop_bit 4 i1,
      push_bit 4 (i1 AND 15) OR drop_bit 2 i2,
      push_bit 6 (i2 AND 3) OR i3]"

definition b64_quad :: "char \<Rightarrow> char \<Rightarrow> char \<Rightarrow> char \<Rightarrow> bytes option" where
  "b64_quad c0 c1 c2 c3 =
     (case (b64_index c0, b64_index c1, b64_index c2, b64_index c3) of
        (Some i0, Some i1, Some i2, Some i3) \<Rightarrow> Some (b64_join i0 i1 i2 i3)
      | _ \<Rightarrow> None)"

text \<open>The last group may carry padding; unused low bits of the last index must be zero
  (strict, canonical decoding).\<close>

definition b64_last :: "char \<Rightarrow> char \<Rightarrow> char \<Rightarrow> char \<Rightarrow> bytes option" where
  "b64_last c0 c1 c2 c3 =
     (if c2 = CHR ''='' \<and> c3 = CHR ''='' then
        (case (b64_index c0, b64_index c1) of
           (Some i0, Some i1) \<Rightarrow>
             if i1 AND 15 = 0 then Some [push_bit 2 i0 OR drop_bit 4 i1] else None
         | _ \<Rightarrow> None)
      else if c3 = CHR ''='' then
        (case (b64_index c0, b64_index c1, b64_index c2) of
           (Some i0, Some i1, Some i2) \<Rightarrow>
             if i2 AND 3 = 0
             then Some [push_bit 2 i0 OR drop_bit 4 i1, push_bit 4 (i1 AND 15) OR drop_bit 2 i2]
             else None
         | _ \<Rightarrow> None)
      else b64_quad c0 c1 c2 c3)"

fun base64_decode :: "string \<Rightarrow> bytes option" where
  "base64_decode [] = Some []"
| "base64_decode (c0 # c1 # c2 # c3 # rest) =
     (if rest = [] then b64_last c0 c1 c2 c3
      else (case b64_quad c0 c1 c2 c3 of
              None \<Rightarrow> None
            | Some bs \<Rightarrow> map_option ((@) bs) (base64_decode rest)))"
| "base64_decode _ = None"

subsection \<open>The alphabet and the index\<close>

lemma b64_index_alphabet_table:
  "list_all (\<lambda>n. b64_index (b64_alphabet ! n) = Some (of_nat n)) [0..<64]"
  by code_simp

lemma b64_index_alphabet:
  "n < 64 \<Longrightarrow> b64_index (b64_alphabet ! n) = Some (of_nat n)"
  using b64_index_alphabet_table by (simp add: list_all_iff)

lemma unat_and_63_lt: "unat ((x::u8) AND 63) < 64"
  using word_and_le1[of x 63] by (simp add: word_le_nat_alt)

lemma b64_index_char [codec_simps]: "b64_index (b64_char x) = Some (x AND 63)"
  using b64_index_alphabet unat_and_63_lt[of x] by (simp add: b64_char_def)

lemma b64_char_not_pad [codec_simps]: "b64_char x \<noteq> CHR ''=''"
proof
  assume "b64_char x = CHR ''=''"
  then have "b64_index (b64_char x) = None" by (simp add: b64_index_def)
  then show False by (simp add: b64_index_char)
qed

lemma b64_char_in_alphabet: "b64_char x \<in> set b64_alphabet"
proof -
  have "unat (x AND 63) < length b64_alphabet"
    using unat_and_63_lt[of x] by (simp add: b64_alphabet_def)
  then show ?thesis by (simp add: b64_char_def)
qed

lemma base64_encode_Nil_iff: "base64_encode bs = [] \<longleftrightarrow> bs = []"
  by (induction bs rule: base64_encode.induct) auto

subsection \<open>Properties of the encoder\<close>

lemma base64_decode_encode [codec_simps]: "base64_decode (base64_encode bs) = Some bs"
proof (induction bs rule: base64_encode.induct)
  case (1 a b c rest)
  show ?case
  proof (cases "rest = []")
    case True
    then show ?thesis
      by (simp add: b64_last_def b64_quad_def b64_join_def codec_simps)
         (auto intro!: u8_bitwise_eqI simp: bit_simps)
  next
    case False
    then have "base64_encode rest \<noteq> []" by (simp add: base64_encode_Nil_iff)
    with "1.IH" show ?thesis
      by (simp add: b64_quad_def b64_join_def codec_simps)
         (auto intro!: u8_bitwise_eqI simp: bit_simps)
  qed
next
  case (2 a b)
  show ?case
    by (simp add: b64_last_def codec_simps) (auto intro!: u8_bitwise_eqI simp: bit_simps)
next
  case (3 a)
  show ?case
    by (simp add: b64_last_def codec_simps) (auto intro!: u8_bitwise_eqI simp: bit_simps)
qed simp

text \<open>Claim C30: the base64 text of n bytes has exactly 4 * ceil(n / 3) characters.\<close>

theorem base64_length: "length (base64_encode bs) = 4 * ((length bs + 2) div 3)"
  by (induction bs rule: base64_encode.induct) (auto, presburger)

text \<open>The base64 text uses only the 64 characters of the alphabet and the padding
  character.\<close>

lemma base64_alphabet: "set (base64_encode bs) \<subseteq> set b64_alphabet \<union> {CHR ''=''}"
  by (induction bs rule: base64_encode.induct) (auto simp: b64_char_in_alphabet)

subsection \<open>The decoder accepts exactly the encoder's outputs\<close>

text \<open>Every character the decoder accepts is the alphabet character of its index, and the
  unused low bits of a padded group are zero; so a decoded text is re-encoded to itself.\<close>

lemma b64_encode_join:
  "base64_encode (b64_join (i0 AND 63) (i1 AND 63) (i2 AND 63) (i3 AND 63)) =
     [b64_char i0, b64_char i1, b64_char i2, b64_char i3]"
proof -
  have e0: "drop_bit 2 (push_bit 2 (i0 AND 63) OR drop_bit 4 (i1 AND 63)) AND 63 = i0 AND 63"
    by (intro u8_bitwise_eqI) (auto simp: bit_simps)
  have e1: "(push_bit 4 ((push_bit 2 (i0 AND 63) OR drop_bit 4 (i1 AND 63)) AND 3) OR
        drop_bit 4 (push_bit 4 ((i1 AND 63) AND 15) OR drop_bit 2 (i2 AND 63))) AND 63 = i1 AND 63"
    by (intro u8_bitwise_eqI) (auto simp: bit_simps)
  have e2: "(push_bit 2 ((push_bit 4 ((i1 AND 63) AND 15) OR drop_bit 2 (i2 AND 63)) AND 15) OR
        drop_bit 6 (push_bit 6 ((i2 AND 63) AND 3) OR (i3 AND 63))) AND 63 = i2 AND 63"
    by (intro u8_bitwise_eqI) (auto simp: bit_simps numeral_2_eq_2[symmetric] numeral_3_eq_3[symmetric])
  have e3: "(push_bit 6 ((i2 AND 63) AND 3) OR (i3 AND 63)) AND 63 = i3 AND 63"
    by (intro u8_bitwise_eqI) (auto simp: bit_simps)
  show ?thesis
    unfolding b64_join_def base64_encode.simps(1) base64_encode.simps(4) append_Nil2
    by (simp only: b64_char_def e0 e1 e2 e3) (simp add: and.assoc)
qed
lemma b64_alphabet_ranges:
  "list_all (\<lambda>n. b64_alphabet ! n = char_of (n + 65)) [0..<26]"
  "list_all (\<lambda>n. b64_alphabet ! (n + 26) = char_of (n + 97)) [0..<26]"
  "list_all (\<lambda>n. b64_alphabet ! (n + 52) = char_of (n + 48)) [0..<10]"
  "b64_alphabet ! 62 = char_of (43::nat)" "b64_alphabet ! 63 = char_of (47::nat)"
  by code_simp+

lemma u8_small_index:
  assumes "n < 64"
  shows "b64_char (of_nat n) = b64_alphabet ! n \<and> (of_nat n :: u8) AND 63 = of_nat n"
proof -
  have m: "(of_nat n :: u8) AND 63 = of_nat n"
  proof -
    have "(of_nat n :: u8) AND mask 6 = take_bit 6 (of_nat n)" by (simp add: take_bit_eq_mask)
    also have "\<dots> = of_nat (take_bit 6 n)" by (simp add: of_nat_take_bit)
    also have "take_bit 6 n = n" using assms by (simp add: take_bit_eq_mod)
    finally show ?thesis by (simp add: mask_eq_exp_minus_1)
  qed
  have "unat (of_nat n :: u8) = n" using assms by simp
  with m show ?thesis by (simp add: b64_char_def)
qed

lemma b64_index_SomeD:
  assumes "b64_index c = Some i"
  shows "i AND 63 = i \<and> b64_char i = c"
proof -
  define k where "k = (of_char c :: nat)"
  have c: "c = char_of k" by (simp add: k_def)
  note R = b64_alphabet_ranges[simplified list_all_iff atLeastLessThan_iff set_upt]
  consider (upper) "65 \<le> k" "k \<le> 90" "i = of_nat (k - 65)"
    | (lower) "97 \<le> k" "k \<le> 122" "i = of_nat ((k - 97) + 26)"
    | (digit) "48 \<le> k" "k \<le> 57" "i = of_nat ((k - 48) + 52)"
    | (plus) "k = 43" "i = 62" | (slash) "k = 47" "i = 63"
    using assms unfolding b64_index_def Let_def k_def[symmetric]
    by (auto split: if_splits simp: add.commute[of _ 26] add.commute[of _ 52])
  then show ?thesis
  proof cases
    case upper
    define n where "n = k - 65"
    have n: "n < 26" "k = n + 65" "i = of_nat n" using upper by (simp_all add: n_def)
    have "b64_alphabet ! n = c" using R(1) n c by simp
    with u8_small_index[of n] n show ?thesis by simp
  next
    case lower
    define n where "n = k - 97"
    have n: "n < 26" "k = n + 97" "i = of_nat (n + 26)" using lower by (simp_all add: n_def)
    have "b64_alphabet ! (n + 26) = c" using R(2) n c by simp
    with u8_small_index[of "n + 26"] n show ?thesis by simp
  next
    case digit
    define n where "n = k - 48"
    have n: "n < 10" "k = n + 48" "i = of_nat (n + 52)" using digit by (simp_all add: n_def)
    have "b64_alphabet ! (n + 52) = c" using R(3) n c by simp
    with u8_small_index[of "n + 52"] n show ?thesis by simp
  next
    case plus
    with R(4) u8_small_index[of 62] c show ?thesis by simp
  next
    case slash
    with R(5) u8_small_index[of 63] c show ?thesis by simp
  qed
qed

lemma u8_split_low4: "(i::u8) AND 63 = (i AND 48) OR (i AND 15)"
  by (intro u8_bitwise_eqI) (auto simp: bit_simps)

lemma u8_split_low2: "(i::u8) AND 63 = (i AND 60) OR (i AND 3)"
  by (intro u8_bitwise_eqI) (auto simp: bit_simps)

lemma b64_encode_last1:
  "base64_encode [push_bit 2 (i0 AND 63) OR drop_bit 4 (j AND 48)] =
     [b64_char i0, b64_char (j AND 48), CHR ''='', CHR ''='']"
proof -
  have e0: "drop_bit 2 (push_bit 2 (i0 AND 63) OR drop_bit 4 (j AND 48)) AND 63 = i0 AND 63"
    by (intro u8_bitwise_eqI) (auto simp: bit_simps)
  have e1: "push_bit 4 ((push_bit 2 (i0 AND 63) OR drop_bit 4 (j AND 48)) AND 3) AND 63 = (j AND 48) AND 63"
    by (intro u8_bitwise_eqI) (auto simp: bit_simps numeral_2_eq_2[symmetric] numeral_3_eq_3[symmetric])
  show ?thesis by (simp only: base64_encode.simps b64_char_def e0 e1)
qed

lemma b64_encode_last2:
  "base64_encode [push_bit 2 (i0 AND 63) OR drop_bit 4 (i1 AND 63),
                  push_bit 4 ((i1 AND 63) AND 15) OR drop_bit 2 (j AND 60)] =
     [b64_char i0, b64_char i1, b64_char (j AND 60), CHR ''='']"
proof -
  have e0: "drop_bit 2 (push_bit 2 (i0 AND 63) OR drop_bit 4 (i1 AND 63)) AND 63 = i0 AND 63"
    by (intro u8_bitwise_eqI) (auto simp: bit_simps)
  have e1: "(push_bit 4 ((push_bit 2 (i0 AND 63) OR drop_bit 4 (i1 AND 63)) AND 3) OR
        drop_bit 4 (push_bit 4 ((i1 AND 63) AND 15) OR drop_bit 2 (j AND 60))) AND 63 = i1 AND 63"
    by (intro u8_bitwise_eqI) (auto simp: bit_simps numeral_2_eq_2[symmetric] numeral_3_eq_3[symmetric])
  have e2: "push_bit 2 ((push_bit 4 ((i1 AND 63) AND 15) OR drop_bit 2 (j AND 60)) AND 15) AND 63 = (j AND 60) AND 63"
    by (intro u8_bitwise_eqI) (auto simp: bit_simps numeral_2_eq_2[symmetric] numeral_3_eq_3[symmetric])
  show ?thesis by (simp only: base64_encode.simps b64_char_def e0 e1 e2)
qed

lemma b64_quad_SomeD:
  assumes "b64_quad c0 c1 c2 c3 = Some bs"
  shows "base64_encode bs = [c0, c1, c2, c3] \<and> length bs = 3"
proof -
  obtain i0 i1 i2 i3 where i: "b64_index c0 = Some i0" "b64_index c1 = Some i1"
      "b64_index c2 = Some i2" "b64_index c3 = Some i3" and bs: "bs = b64_join i0 i1 i2 i3"
    using assms by (auto simp: b64_quad_def split: option.splits)
  note d = b64_index_SomeD[OF i(1)] b64_index_SomeD[OF i(2)] b64_index_SomeD[OF i(3)] b64_index_SomeD[OF i(4)]
  have "bs = b64_join (i0 AND 63) (i1 AND 63) (i2 AND 63) (i3 AND 63)"
    using d bs by simp
  then have e: "base64_encode bs = [b64_char i0, b64_char i1, b64_char i2, b64_char i3]"
    by (simp only: b64_encode_join)
  show ?thesis using e d bs by (simp add: b64_join_def)
qed

lemma b64_last_SomeD:
  assumes "b64_last c0 c1 c2 c3 = Some bs"
  shows "base64_encode bs = [c0, c1, c2, c3]"
proof (cases "c2 = CHR ''='' \<and> c3 = CHR ''=''")
  case True
  then obtain i0 i1 where i: "b64_index c0 = Some i0" "b64_index c1 = Some i1"
      and z: "i1 AND 15 = 0" and bs: "bs = [push_bit 2 i0 OR drop_bit 4 i1]"
    using assms by (auto simp: b64_last_def split: option.splits if_splits)
  note d = b64_index_SomeD[OF i(1)] b64_index_SomeD[OF i(2)]
  have m: "i1 AND 48 = i1" using u8_split_low4[of i1] d z by simp
  have "bs = [push_bit 2 (i0 AND 63) OR drop_bit 4 (i1 AND 48)]" using d m bs by simp
  then have "base64_encode bs = [b64_char i0, b64_char (i1 AND 48), CHR ''='', CHR ''='']"
    by (simp only: b64_encode_last1)
  then show ?thesis using d m True by simp
next
  case False
  show ?thesis
  proof (cases "c3 = CHR ''=''")
    case True
    with False obtain i0 i1 i2 where i: "b64_index c0 = Some i0" "b64_index c1 = Some i1"
        "b64_index c2 = Some i2" and z: "i2 AND 3 = 0"
        and bs: "bs = [push_bit 2 i0 OR drop_bit 4 i1, push_bit 4 (i1 AND 15) OR drop_bit 2 i2]"
      using assms by (auto simp: b64_last_def split: option.splits if_splits)
    note d = b64_index_SomeD[OF i(1)] b64_index_SomeD[OF i(2)] b64_index_SomeD[OF i(3)]
    have m: "i2 AND 60 = i2" using u8_split_low2[of i2] d z by simp
    have "bs = [push_bit 2 (i0 AND 63) OR drop_bit 4 (i1 AND 63),
                push_bit 4 ((i1 AND 63) AND 15) OR drop_bit 2 (i2 AND 60)]"
      using d m bs by simp
    then have "base64_encode bs = [b64_char i0, b64_char i1, b64_char (i2 AND 60), CHR ''='']"
      by (simp only: b64_encode_last2)
    then show ?thesis using d m True by simp
  next
    case c3: False
    with False assms have "b64_quad c0 c1 c2 c3 = Some bs" by (auto simp: b64_last_def)
    then show ?thesis by (simp add: b64_quad_SomeD)
  qed
qed

lemma base64_encode_append3:
  "length q = 3 \<Longrightarrow> base64_encode (q @ r) = base64_encode q @ base64_encode r"
  by (cases q rule: base64_encode.cases) auto

lemma base64_decode_canonical: "base64_decode s = Some bs \<Longrightarrow> base64_encode bs = s"
proof (induction s arbitrary: bs rule: base64_decode.induct)
  case (2 c0 c1 c2 c3 rest)
  show ?case
  proof (cases "rest = []")
    case True
    with "2.prems" show ?thesis by (simp add: b64_last_SomeD)
  next
    case False
    with "2.prems" obtain q r where q: "b64_quad c0 c1 c2 c3 = Some q"
        and r: "base64_decode rest = Some r" and bs: "bs = q @ r"
      by (auto split: option.splits)
    from b64_quad_SomeD[OF q] "2.IH"[OF False q r] show ?thesis
      by (simp add: bs base64_encode_append3)
  qed
qed simp_all

text \<open>Claim C20: base64 text is canonical: the strict decoder accepts a text exactly when
  it is the encoder's output for the decoded bytes, so each byte sequence has one text.\<close>

theorem base64_decode_iff: "base64_decode s = Some bs \<longleftrightarrow> base64_encode bs = s"
  using base64_decode_canonical base64_decode_encode by blast

end
