(* ===== verification/Utf8.thy ===== *)
theory Utf8
  imports Prelude
begin

text \<open>
  UTF-8 encoding of a JavaScript string as Node's \<open>Buffer.from(string)\<close> performs it
  (line 4 of \<open>src/packages/plugin-celestia/src/functions/encodeDataToBase64String.ts\<close>):
  the UTF-16 code units are read as code points, a surrogate pair giving one supplementary
  code point and a lone surrogate giving the replacement character U+FFFD, and each code
  point is written as one to four bytes. The strict decoder \<open>utf8_decode\<close> (rejecting
  overlong forms, surrogates and values past U+10FFFF) and \<open>utf16_of_code_points\<close> are
  the inverse the specification's round trip refers to. Lemmas: every code point produced
  is a Unicode scalar value; decoding inverts encoding on scalar values; a well-formed
  string (no lone surrogate) survives \<open>Buffer.from\<close> unchanged, and any string comes
  back as its \<open>toWellFormed\<close> form (\<open>to_well_formed\<close>: lone surrogates replaced by
  U+FFFD).
\<close>

definition is_high_surrogate :: "u16 \<Rightarrow> bool" where
  "is_high_surrogate u \<longleftrightarrow> 0xD800 \<le> unat u \<and> unat u \<le> 0xDBFF"

definition is_low_surrogate :: "u16 \<Rightarrow> bool" where
  "is_low_surrogate u \<longleftrightarrow> 0xDC00 \<le> unat u \<and> unat u \<le> 0xDFFF"

definition is_scalar :: "nat \<Rightarrow> bool" where
  "is_scalar c \<longleftrightarrow> c < 0x110000 \<and> \<not> (0xD800 \<le> c \<and> c \<le> 0xDFFF)"

definition replacement_char :: nat where
  "replacement_char = 0xFFFD"

definition unit_code_point :: "u16 \<Rightarrow> nat" where
  "unit_code_point u =
     (if is_high_surrogate u \<or> is_low_surrogate u then replacement_char else unat u)"

definition pair_code_point :: "u16 \<Rightarrow> u16 \<Rightarrow> nat" where
  "pair_code_point hi lo = 0x10000 + (unat hi - 0xD800) * 1024 + (unat lo - 0xDC00)"

fun utf16_code_points :: "jstr \<Rightarrow> nat list" where
  "utf16_code_points (u # v # vs) =
     (if is_high_surrogate u \<and> is_low_surrogate v
      then pair_code_point u v # utf16_code_points vs
      else unit_code_point u # utf16_code_points (v # vs))"
| "utf16_code_points [u] = [unit_code_point u]"
| "utf16_code_points [] = []"

definition utf8_encode_cp :: "nat \<Rightarrow> bytes" where
  "utf8_encode_cp c =
     (if c < 0x80 then [of_nat c]
      else if c < 0x800 then [of_nat (0xC0 + c div 64), of_nat (0x80 + c mod 64)]
      else if c < 0x10000 then
        [of_nat (0xE0 + c div 4096), of_nat (0x80 + c div 64 mod 64), of_nat (0x80 + c mod 64)]
      else [of_nat (0xF0 + c div 262144), of_nat (0x80 + c div 4096 mod 64),
            of_nat (0x80 + c div 64 mod 64), of_nat (0x80 + c mod 64)])"

definition buffer_from_string :: "jstr \<Rightarrow> bytes" where
  "buffer_from_string s = concat (map utf8_encode_cp (utf16_code_points s))"

subsection \<open>The strict decoder and the UTF-16 writer\<close>

definition is_cont :: "u8 \<Rightarrow> bool" where
  "is_cont b \<longleftrightarrow> 0x80 \<le> unat b \<and> unat b < 0xC0"

definition utf8_seq_len :: "u8 \<Rightarrow> nat" where
  "utf8_seq_len b =
     (if unat b < 0x80 then 1
      else if 0xC0 \<le> unat b \<and> unat b < 0xE0 then 2
      else if 0xE0 \<le> unat b \<and> unat b < 0xF0 then 3
      else if 0xF0 \<le> unat b \<and> unat b < 0xF8 then 4
      else 0)"

fun utf8_dec_seq :: "bytes \<Rightarrow> nat option" where
  "utf8_dec_seq [b0] = (if unat b0 < 0x80 then Some (unat b0) else None)"
| "utf8_dec_seq [b0, b1] =
     (let c = (unat b0 - 0xC0) * 64 + (unat b1 - 0x80)
      in if is_cont b1 \<and> 0x80 \<le> c then Some c else None)"
| "utf8_dec_seq [b0, b1, b2] =
     (let c = (unat b0 - 0xE0) * 4096 + (unat b1 - 0x80) * 64 + (unat b2 - 0x80)
      in if is_cont b1 \<and> is_cont b2 \<and> 0x800 \<le> c \<and> is_scalar c then Some c else None)"
| "utf8_dec_seq [b0, b1, b2, b3] =
     (let c = (unat b0 - 0xF0) * 262144 + (unat b1 - 0x80) * 4096
              + (unat b2 - 0x80) * 64 + (unat b3 - 0x80)
      in if is_cont b1 \<and> is_cont b2 \<and> is_cont b3 \<and> 0x10000 \<le> c \<and> is_scalar c
         then Some c else None)"
| "utf8_dec_seq _ = None"

function utf8_decode :: "bytes \<Rightarrow> nat list option" where
  "utf8_decode [] = Some []"
| "utf8_decode (b # bs) =
     (let n = utf8_seq_len b in
      if n = 0 \<or> length bs < n - 1 then None
      else (case utf8_dec_seq (take n (b # bs)) of
              None \<Rightarrow> None
            | Some c \<Rightarrow> map_option ((#) c) (utf8_decode (drop n (b # bs)))))"
  by pat_completeness auto
termination
  by (relation "measure length") auto

fun utf16_of_code_points :: "nat list \<Rightarrow> jstr" where
  "utf16_of_code_points [] = []"
| "utf16_of_code_points (c # cs) =
     (if c < 0x10000 then of_nat c # utf16_of_code_points cs
      else of_nat (0xD800 + (c - 0x10000) div 1024)
           # of_nat (0xDC00 + (c - 0x10000) mod 1024) # utf16_of_code_points cs)"

definition utf8_to_string :: "bytes \<Rightarrow> jstr option" where
  "utf8_to_string bs = map_option utf16_of_code_points (utf8_decode bs)"

fun well_formed_utf16 :: "jstr \<Rightarrow> bool" where
  "well_formed_utf16 (u # v # vs) =
     (if is_high_surrogate u then is_low_surrogate v \<and> well_formed_utf16 vs
      else \<not> is_low_surrogate u \<and> well_formed_utf16 (v # vs))"
| "well_formed_utf16 [u] = (\<not> is_high_surrogate u \<and> \<not> is_low_surrogate u)"
| "well_formed_utf16 [] = True"

text \<open>\<open>String.prototype.toWellFormed\<close>: every lone surrogate replaced by U+FFFD, the
  reference for what \<open>Buffer.from\<close> keeps of an arbitrary string.\<close>

definition well_formed_unit :: "u16 \<Rightarrow> u16" where
  "well_formed_unit u = (if is_high_surrogate u \<or> is_low_surrogate u then 0xFFFD else u)"

fun to_well_formed :: "jstr \<Rightarrow> jstr" where
  "to_well_formed (u # v # vs) =
     (if is_high_surrogate u \<and> is_low_surrogate v then u # v # to_well_formed vs
      else well_formed_unit u # to_well_formed (v # vs))"
| "to_well_formed [u] = [well_formed_unit u]"
| "to_well_formed [] = []"

subsection \<open>Code points are scalar values\<close>


lemma unit_code_point_scalar: "is_scalar (unit_code_point u)"
  using unat_u16_lt_65536[of u]
  by (auto simp: is_scalar_def unit_code_point_def replacement_char_def
                 is_high_surrogate_def is_low_surrogate_def)

lemma pair_code_point_scalar:
  "is_high_surrogate u \<Longrightarrow> is_low_surrogate v \<Longrightarrow> is_scalar (pair_code_point u v)"
  by (auto simp: is_scalar_def pair_code_point_def is_high_surrogate_def is_low_surrogate_def)

lemma utf16_code_points_scalar: "\<forall>c \<in> set (utf16_code_points s). is_scalar c"
  by (induction s rule: utf16_code_points.induct)
     (auto simp: unit_code_point_scalar pair_code_point_scalar)

subsection \<open>Decoding inverts encoding\<close>

lemma utf8_decode_one:
  "unat b0 < 0x80 \<Longrightarrow> utf8_decode (b0 # rest) = map_option ((#) (unat b0)) (utf8_decode rest)"
  by (simp add: utf8_seq_len_def)

lemma utf8_decode_two:
  assumes "unat b0 = 0xC0 + d1" "unat b1 = 0x80 + d0" "2 \<le> d1" "d1 < 32" "d0 < 64"
  shows "utf8_decode (b0 # b1 # rest) = map_option ((#) (d1 * 64 + d0)) (utf8_decode rest)"
  using assms by (simp add: utf8_seq_len_def is_cont_def Let_def)

lemma utf8_decode_three:
  assumes "unat b0 = 0xE0 + d2" "unat b1 = 0x80 + d1" "unat b2 = 0x80 + d0"
    "d2 < 16" "d1 < 64" "d0 < 64" "0x800 \<le> d2 * 4096 + d1 * 64 + d0"
    "is_scalar (d2 * 4096 + d1 * 64 + d0)"
  shows "utf8_decode (b0 # b1 # b2 # rest) =
           map_option ((#) (d2 * 4096 + d1 * 64 + d0)) (utf8_decode rest)"
  using assms by (simp add: utf8_seq_len_def is_cont_def Let_def)

lemma utf8_decode_four:
  assumes "unat b0 = 0xF0 + d3" "unat b1 = 0x80 + d2" "unat b2 = 0x80 + d1" "unat b3 = 0x80 + d0"
    "d3 < 8" "d2 < 64" "d1 < 64" "d0 < 64" "0x10000 \<le> d3 * 262144 + d2 * 4096 + d1 * 64 + d0"
    "is_scalar (d3 * 262144 + d2 * 4096 + d1 * 64 + d0)"
  shows "utf8_decode (b0 # b1 # b2 # b3 # rest) =
           map_option ((#) (d3 * 262144 + d2 * 4096 + d1 * 64 + d0)) (utf8_decode rest)"
  using assms by (simp add: utf8_seq_len_def is_cont_def Let_def)

lemma utf8_decode_encode_cp:
  assumes "is_scalar c"
  shows "utf8_decode (utf8_encode_cp c @ rest) = map_option ((#) c) (utf8_decode rest)"
proof -
  have byte: "\<And>n. n < 256 \<Longrightarrow> unat (of_nat n :: u8) = n"
    by (rule unat_of_nat_u8)
  consider "c < 0x80" | "0x80 \<le> c" "c < 0x800" | "0x800 \<le> c" "c < 0x10000" | "0x10000 \<le> c"
    by linarith
  then show ?thesis
  proof cases
    case 1
    then show ?thesis
      using utf8_decode_one[of "of_nat c"] byte[of c] by (simp add: utf8_encode_cp_def)
  next
    case 2
    then have enc: "utf8_encode_cp c @ rest = of_nat (0xC0 + c div 64) # of_nat (0x80 + c mod 64) # rest"
      by (simp add: utf8_encode_cp_def del: of_nat_add)
    from 2 have "utf8_decode (of_nat (0xC0 + c div 64) # of_nat (0x80 + c mod 64) # rest)
               = map_option ((#) ((c div 64) * 64 + c mod 64)) (utf8_decode rest)"
      by (intro utf8_decode_two byte) auto
    then show ?thesis by (simp only: enc div_mult_mod_eq)
  next
    case 3
    then have enc: "utf8_encode_cp c @ rest = of_nat (0xE0 + c div 4096)
                      # of_nat (0x80 + c div 64 mod 64) # of_nat (0x80 + c mod 64) # rest"
      by (simp add: utf8_encode_cp_def del: of_nat_add)
    from 3 assms have "utf8_decode (of_nat (0xE0 + c div 4096) # of_nat (0x80 + c div 64 mod 64)
                           # of_nat (0x80 + c mod 64) # rest)
               = map_option ((#) (c div 4096 * 4096 + c div 64 mod 64 * 64 + c mod 64))
                   (utf8_decode rest)"
      by (intro utf8_decode_three byte) (auto simp: nat_digits64_3)
    then show ?thesis by (simp only: enc nat_digits64_3)
  next
    case 4
    then have enc: "utf8_encode_cp c @ rest = of_nat (0xF0 + c div 262144)
                      # of_nat (0x80 + c div 4096 mod 64) # of_nat (0x80 + c div 64 mod 64)
                      # of_nat (0x80 + c mod 64) # rest"
      by (simp add: utf8_encode_cp_def del: of_nat_add)
    from 4 assms have "utf8_decode (of_nat (0xF0 + c div 262144) # of_nat (0x80 + c div 4096 mod 64)
                           # of_nat (0x80 + c div 64 mod 64) # of_nat (0x80 + c mod 64) # rest)
               = map_option ((#) (c div 262144 * 262144 + c div 4096 mod 64 * 4096
                                  + c div 64 mod 64 * 64 + c mod 64)) (utf8_decode rest)"
      by (intro utf8_decode_four byte) (auto simp: is_scalar_def nat_digits64_4)
    then show ?thesis by (simp only: enc nat_digits64_4)
  qed
qed


lemma utf8_decode_concat:
  "\<forall>c\<in>set cs. is_scalar c \<Longrightarrow> utf8_decode (concat (map utf8_encode_cp cs)) = Some cs"
  by (induction cs) (simp_all add: utf8_decode_encode_cp)

lemma utf16_of_unit: "\<not> is_high_surrogate u \<Longrightarrow> \<not> is_low_surrogate u \<Longrightarrow>
   unit_code_point u = unat u \<and> unat u < 0x10000"
  using unat_u16_lt_65536[of u] by (simp add: unit_code_point_def)

lemma utf16_of_pair:
  assumes "is_high_surrogate u" "is_low_surrogate v"
  shows "utf16_of_code_points (pair_code_point u v # cs) = u # v # utf16_of_code_points cs"
proof -
  let ?h = "unat u - 0xD800" and ?l = "unat v - 0xDC00"
  have l: "?l < 1024" and h: "?h < 1024"
    using assms by (auto simp: is_high_surrogate_def is_low_surrogate_def)
  have "(pair_code_point u v - 0x10000) div 1024 = ?h"
    using l by (simp add: pair_code_point_def)
  moreover have "(pair_code_point u v - 0x10000) mod 1024 = ?l"
    using l by (simp add: pair_code_point_def)
  moreover have "0xD800 + ?h = unat u" "0xDC00 + ?l = unat v"
    using assms by (auto simp: is_high_surrogate_def is_low_surrogate_def)
  ultimately show ?thesis
    by (simp add: pair_code_point_def del: of_nat_add)
qed

lemma utf16_code_points_roundtrip:
  "well_formed_utf16 s \<Longrightarrow> utf16_of_code_points (utf16_code_points s) = s"
proof (induction s rule: utf16_code_points.induct)
  case (1 u v vs)
  show ?case
  proof (cases "is_high_surrogate u \<and> is_low_surrogate v")
    case True
    with "1.IH"(1) "1.prems" show ?thesis
      by (simp add: utf16_of_pair del: utf16_of_code_points.simps)
  next
    case False
    with "1.prems" have "\<not> is_high_surrogate u" "\<not> is_low_surrogate u"
      "well_formed_utf16 (v # vs)"
      by (auto split: if_splits)
    with False "1.IH"(2) show ?thesis by (simp add: utf16_of_unit)
  qed
next
  case (2 u)
  then show ?case by (simp add: utf16_of_unit)
qed simp

text \<open>Claim C21: a JavaScript string without lone surrogates survives Node's UTF-8
  encoding: decoding the bytes of \<open>Buffer.from(s)\<close> gives back \<open>s\<close>.\<close>

theorem buffer_from_string_roundtrip:
  "well_formed_utf16 s \<Longrightarrow> utf8_to_string (buffer_from_string s) = Some s"
  by (simp add: utf8_to_string_def buffer_from_string_def utf8_decode_concat
                utf16_code_points_scalar utf16_code_points_roundtrip)

lemma utf16_of_unit_code_point:
  "utf16_of_code_points (unit_code_point u # cs) = well_formed_unit u # utf16_of_code_points cs"
proof -
  have "unit_code_point u < 0x10000"
    using unat_u16_lt_65536[of u] by (simp add: unit_code_point_def replacement_char_def)
  then show ?thesis
    by (simp add: unit_code_point_def well_formed_unit_def replacement_char_def)
qed

lemma utf16_code_points_to_well_formed:
  "utf16_of_code_points (utf16_code_points s) = to_well_formed s"
proof (induction s rule: utf16_code_points.induct)
  case (1 u v vs)
  show ?case
  proof (cases "is_high_surrogate u \<and> is_low_surrogate v")
    case True
    with "1.IH"(1) show ?thesis by (simp add: utf16_of_pair del: utf16_of_code_points.simps)
  next
    case False
    then have "utf16_of_code_points (utf16_code_points (v # vs)) = to_well_formed (v # vs)"
      by (rule "1.IH"(2))
    with False show ?thesis
      by (simp only: utf16_code_points.simps(1) to_well_formed.simps(1) if_False
                     utf16_of_unit_code_point)
  qed
qed (simp_all add: utf16_of_unit_code_point[of _ "[]", simplified])

text \<open>Claim C31: for every string, lone surrogates included, decoding the bytes of
  \<open>Buffer.from(s)\<close> gives \<open>s.toWellFormed()\<close>: each lone surrogate becomes U+FFFD and
  every other code unit, surrogate pairs included, is kept.\<close>

theorem buffer_from_string_decodes_well_formed:
  "utf8_to_string (buffer_from_string s) = Some (to_well_formed s)"
  by (simp add: utf8_to_string_def buffer_from_string_def utf8_decode_concat
                utf16_code_points_scalar utf16_code_points_to_well_formed)

lemma buffer_from_string_lone_surrogate:
  "buffer_from_string [0xD800] = [0xEF, 0xBF, 0xBD]"
  by (simp add: buffer_from_string_def unit_code_point_def is_high_surrogate_def replacement_char_def utf8_encode_cp_def)

text \<open>The string \<open>H\<close> followed by the surrogate pair of U+1F600 is well-formed, and it
  survives \<open>Buffer.from\<close>.\<close>

theorem buffer_from_string_roundtrip_witness:
  "well_formed_utf16 [0x48, 0xD83D, 0xDE00] \<and>
   utf8_to_string (buffer_from_string [0x48, 0xD83D, 0xDE00]) = Some [0x48, 0xD83D, 0xDE00]"
proof -
  have w: "well_formed_utf16 [0x48, 0xD83D, 0xDE00]"
    by (simp add: is_high_surrogate_def is_low_surrogate_def)
  show ?thesis using w buffer_from_string_roundtrip[OF w] by simp
qed

end
