(* ===== verification/JsonString.thy ===== *)
theory JsonString
  imports Utf8
begin

text \<open>
  \<open>JSON.stringify\<close> applied to a string, as on line 3 of
  \<open>src/packages/plugin-celestia/src/functions/encodeDataToBase64String.ts\<close>: the
  ECMAScript operation QuoteJSONString. The string is read code point by code point; a
  surrogate pair is copied, the seven characters backspace, tab, line feed, form feed,
  carriage return, quotation mark and reverse solidus get their two-character escapes,
  every other control character and every lone surrogate gets a \<open>\uXXXX\<close> escape with
  lowercase hexadecimal digits, and the result is wrapped in quotation marks.
  \<open>json_parse_string\<close> is the reading of a JSON string literal by \<open>JSON.parse\<close>, the
  inverse the specification's round trip refers to. Lemmas: parsing inverts quoting for
  every string (lone surrogates included), and the quoted text is well-formed UTF-16, so
  that the UTF-8 step after it loses nothing.
\<close>

definition hex_digit :: "nat \<Rightarrow> u16" where
  "hex_digit d = (if d < 10 then of_nat (48 + d) else of_nat (87 + d))"

definition unicode_escape :: "u16 \<Rightarrow> jstr" where
  "unicode_escape u =
     (let n = unat u in
      [0x5C, 0x75, hex_digit (n div 4096), hex_digit (n div 256 mod 16),
       hex_digit (n div 16 mod 16), hex_digit (n mod 16)])"

definition escape_unit :: "u16 \<Rightarrow> jstr" where
  "escape_unit u =
     (if u = 0x08 then [0x5C, 0x62]
      else if u = 0x09 then [0x5C, 0x74]
      else if u = 0x0A then [0x5C, 0x6E]
      else if u = 0x0C then [0x5C, 0x66]
      else if u = 0x0D then [0x5C, 0x72]
      else if u = 0x22 then [0x5C, 0x22]
      else if u = 0x5C then [0x5C, 0x5C]
      else if unat u < 0x20 then unicode_escape u
      else [u])"

definition quote_single :: "u16 \<Rightarrow> jstr" where
  "quote_single u =
     (if is_high_surrogate u \<or> is_low_surrogate u then unicode_escape u else escape_unit u)"

fun quote_units :: "jstr \<Rightarrow> jstr" where
  "quote_units (u # v # vs) =
     (if is_high_surrogate u \<and> is_low_surrogate v then u # v # quote_units vs
      else quote_single u @ quote_units (v # vs))"
| "quote_units [u] = quote_single u"
| "quote_units [] = []"

definition json_quote :: "jstr \<Rightarrow> jstr" where
  "json_quote s = 0x22 # quote_units s @ [0x22]"

subsection \<open>Reading a JSON string literal\<close>

definition hex_value :: "u16 \<Rightarrow> nat option" where
  "hex_value h =
     (let k = unat h in
      if 48 \<le> k \<and> k \<le> 57 then Some (k - 48)
      else if 97 \<le> k \<and> k \<le> 102 then Some (k - 87)
      else if 65 \<le> k \<and> k \<le> 70 then Some (k - 55)
      else None)"

definition hex4_value :: "u16 \<Rightarrow> u16 \<Rightarrow> u16 \<Rightarrow> u16 \<Rightarrow> u16 option" where
  "hex4_value h3 h2 h1 h0 =
     (case (hex_value h3, hex_value h2, hex_value h1, hex_value h0) of
        (Some a, Some b, Some c, Some d) \<Rightarrow> Some (of_nat (a * 4096 + b * 256 + c * 16 + d))
      | _ \<Rightarrow> None)"

definition simple_escape :: "u16 \<Rightarrow> u16 option" where
  "simple_escape e =
     (if e = 0x22 then Some 0x22 else if e = 0x5C then Some 0x5C
      else if e = 0x2F then Some 0x2F else if e = 0x62 then Some 0x08
      else if e = 0x66 then Some 0x0C else if e = 0x6E then Some 0x0A
      else if e = 0x72 then Some 0x0D else if e = 0x74 then Some 0x09
      else None)"

fun json_unquote :: "jstr \<Rightarrow> jstr option" where
  "json_unquote [] = None"
| "json_unquote (u # rest) =
     (if u = 0x22 then (if rest = [] then Some [] else None)
      else if u = 0x5C then
        (case rest of
           [] \<Rightarrow> None
         | e # rest' \<Rightarrow>
             (case simple_escape e of
                Some c \<Rightarrow> map_option ((#) c) (json_unquote rest')
              | None \<Rightarrow>
                  if e = 0x75 then
                    (case rest' of
                       h3 # h2 # h1 # h0 # r \<Rightarrow>
                         (case hex4_value h3 h2 h1 h0 of
                            None \<Rightarrow> None
                          | Some c \<Rightarrow> map_option ((#) c) (json_unquote r))
                     | _ \<Rightarrow> None)
                  else None))
      else if unat u < 0x20 then None
      else map_option ((#) u) (json_unquote rest))"

definition json_parse_string :: "jstr \<Rightarrow> jstr option" where
  "json_parse_string s =
     (case s of q # rest \<Rightarrow> if q = 0x22 then json_unquote rest else None | [] \<Rightarrow> None)"

subsection \<open>Parsing inverts quoting\<close>


lemma unat_hex_digit: "d < 16 \<Longrightarrow> unat (hex_digit d) = (if d < 10 then 48 + d else 87 + d)"
  by (simp add: hex_digit_def unat_of_nat del: of_nat_add)

lemma hex_value_digit: "d < 16 \<Longrightarrow> hex_value (hex_digit d) = Some d"
  by (simp add: hex_value_def unat_hex_digit Let_def)

lemma json_unquote_close: "json_unquote [0x22] = Some []"
  by simp

lemma hex4_value_escape:
  "hex4_value (hex_digit (unat u div 4096)) (hex_digit (unat u div 256 mod 16))
              (hex_digit (unat u div 16 mod 16)) (hex_digit (unat u mod 16)) = Some u"
proof -
  have "unat u div 4096 < 16"
    using unat_u16_lt_65536[of u] by simp
  then show ?thesis
    by (simp add: hex4_value_def hex_value_digit nat_digits16_4)
qed

lemma json_unquote_unicode_escape:
  "json_unquote (unicode_escape u @ rest) = map_option ((#) u) (json_unquote rest)"
  by (simp add: unicode_escape_def simple_escape_def hex4_value_escape Let_def)

lemma json_unquote_escape_unit:
  "json_unquote (escape_unit u @ rest) = map_option ((#) u) (json_unquote rest)"
  by (auto simp: escape_unit_def simple_escape_def json_unquote_unicode_escape)

lemma json_unquote_quote_single:
  "json_unquote (quote_single u @ rest) = map_option ((#) u) (json_unquote rest)"
  by (simp add: quote_single_def json_unquote_unicode_escape json_unquote_escape_unit)

lemma json_unquote_surrogate:
  "is_high_surrogate u \<or> is_low_surrogate u \<Longrightarrow>
     json_unquote (u # rest) = map_option ((#) u) (json_unquote rest)"
  by (auto simp: is_high_surrogate_def is_low_surrogate_def)

lemma json_unquote_quote_units:
  "json_unquote (quote_units s @ [0x22]) = Some s"
proof (induction s rule: quote_units.induct)
  case (1 u v vs)
  then show ?case
    by (auto simp: json_unquote_surrogate json_unquote_quote_single json_unquote_close
             simp del: json_unquote.simps(2) quote_single_def)
qed (simp_all add: json_unquote_quote_single json_unquote_close del: json_unquote.simps(2))

text \<open>Claim C22: \<open>JSON.parse\<close> of the JSON text of any string gives back that string,
  lone surrogates included.\<close>

theorem json_quote_roundtrip: "json_parse_string (json_quote s) = Some s"
  by (simp add: json_parse_string_def json_quote_def json_unquote_quote_units)


subsection \<open>The quoted text is well-formed\<close>

lemma well_formed_Cons_plain:
  "\<not> is_high_surrogate u \<Longrightarrow> \<not> is_low_surrogate u \<Longrightarrow>
     well_formed_utf16 (u # ys) = well_formed_utf16 ys"
  by (cases ys) auto

lemma well_formed_append_plain:
  "\<forall>u\<in>set xs. \<not> is_high_surrogate u \<and> \<not> is_low_surrogate u \<Longrightarrow>
     well_formed_utf16 (xs @ ys) = well_formed_utf16 ys"
  by (induction xs) (simp_all add: well_formed_Cons_plain)

lemma ascii_unit_plain: "unat u < 128 \<Longrightarrow> \<not> is_high_surrogate u \<and> \<not> is_low_surrogate u"
  by (simp add: is_high_surrogate_def is_low_surrogate_def)

lemma unicode_escape_ascii: "\<forall>x\<in>set (unicode_escape u). unat x < 128"
proof -
  have "\<And>d. d < 16 \<Longrightarrow> unat (hex_digit d) < 128"
    by (simp add: unat_hex_digit)
  moreover have "unat u div 4096 < 16"
    using unat_u16_lt_65536[of u] by simp
  ultimately show ?thesis by (simp add: unicode_escape_def Let_def)
qed

lemma quote_single_plain:
  "\<forall>x\<in>set (quote_single u). \<not> is_high_surrogate x \<and> \<not> is_low_surrogate x"
proof -
  have esc: "\<forall>x\<in>set (unicode_escape u). \<not> is_high_surrogate x \<and> \<not> is_low_surrogate x"
    using unicode_escape_ascii[of u] ascii_unit_plain by blast
  show ?thesis
  proof (cases "is_high_surrogate u \<or> is_low_surrogate u")
    case True
    with esc show ?thesis by (simp add: quote_single_def)
  next
    case False
    with esc show ?thesis
      by (auto simp: quote_single_def escape_unit_def is_high_surrogate_def is_low_surrogate_def)
  qed
qed

lemma quote_units_well_formed: "well_formed_utf16 (quote_units s @ ys) = well_formed_utf16 ys"
proof (induction s rule: quote_units.induct)
  case (1 u v vs)
  then show ?case
    by (simp add: well_formed_append_plain quote_single_plain del: quote_single_def)
qed (simp_all add: well_formed_append_plain quote_single_plain del: quote_single_def)

subsection \<open>Printable text is copied\<close>

text \<open>A string of printable ASCII characters other than quotation mark and reverse
  solidus is copied unchanged between the quotation marks.\<close>

lemma quote_units_Cons_plain:
  "\<not> is_high_surrogate u \<Longrightarrow> quote_units (u # us) = quote_single u @ quote_units us"
  by (cases us) simp_all

lemma quote_single_printable:
  assumes "0x20 \<le> unat u" "unat u < 128" "unat u \<noteq> 0x22" "unat u \<noteq> 0x5C"
  shows "quote_single u = [u]"
proof -
  have "u \<noteq> 0x08 \<and> u \<noteq> 0x09 \<and> u \<noteq> 0x0A \<and> u \<noteq> 0x0C \<and> u \<noteq> 0x0D \<and>
        u \<noteq> 0x22 \<and> u \<noteq> 0x5C"
    using assms(1,3,4) by auto
  with assms show ?thesis
    by (simp add: quote_single_def escape_unit_def is_high_surrogate_def is_low_surrogate_def)
qed

lemma quote_units_printable:
  "\<forall>u\<in>set s. 0x20 \<le> unat u \<and> unat u < 128 \<and> unat u \<noteq> 0x22 \<and> unat u \<noteq> 0x5C \<Longrightarrow>
     quote_units s = s"
proof (induction s)
  case (Cons u us)
  then have "\<not> is_high_surrogate u" by (simp add: is_high_surrogate_def)
  with Cons show ?case by (simp add: quote_units_Cons_plain quote_single_printable)
qed simp

lemma json_quote_ascii:
  assumes "\<forall>c\<in>set s. (0x20::nat) \<le> of_char c \<and> of_char c < (128::nat) \<and>
             of_char c \<noteq> (0x22::nat) \<and> of_char c \<noteq> (0x5C::nat)"
  shows "json_quote (js_of_ascii s) = 0x22 # js_of_ascii s @ [0x22]"
proof -
  from assms have "\<forall>u\<in>set (js_of_ascii s).
                     0x20 \<le> unat u \<and> unat u < 128 \<and> unat u \<noteq> 0x22 \<and> unat u \<noteq> 0x5C"
    by (auto simp: js_of_ascii_def unat_of_nat)
  then show ?thesis by (simp add: json_quote_def quote_units_printable)
qed

text \<open>Claim C23: the JSON text of any string is well-formed UTF-16: every lone surrogate
  of the input has been escaped.\<close>

theorem json_quote_well_formed: "well_formed_utf16 (json_quote s)"
proof -
  have "\<not> is_high_surrogate (0x22::u16) \<and> \<not> is_low_surrogate (0x22::u16)"
    by (simp add: ascii_unit_plain)
  then show ?thesis
    by (simp add: json_quote_def well_formed_Cons_plain quote_units_well_formed)
qed

end
