(* ===== verification/Encoder.thy ===== *)
theory Encoder
  imports Base64 JsonString
begin

text \<open>
  The blob encoder, \<open>src/packages/plugin-celestia/src/functions/encodeDataToBase64String.ts\<close>:
  \<open>JSON.stringify(data)\<close> (\<open>json_quote\<close>), then \<open>Buffer.from\<close> (\<open>buffer_from_string\<close>,
  UTF-8), then \<open>toString('base64')\<close> (\<open>base64_encode\<close>). The function's \<open>catch\<close>
  branch rethrows what these calls throw; for a string argument none of them throws, so
  the model is a total function and the error branch is absent. \<open>decode_blob\<close> is the
  specification's reverse direction: base64-decode, UTF-8-decode, \<open>JSON.parse\<close>.
\<close>

definition encodeDataToBase64String :: "jstr \<Rightarrow> string" where
  "encodeDataToBase64String data = base64_encode (buffer_from_string (json_quote data))"

definition decode_blob :: "string \<Rightarrow> jstr option" where
  "decode_blob s =
     (case base64_decode s of
        None \<Rightarrow> None
      | Some bs \<Rightarrow> (case utf8_to_string bs of None \<Rightarrow> None | Some t \<Rightarrow> json_parse_string t))"

text \<open>Claim C1: for every JavaScript string payload, base64-decoding the encoder's output,
  decoding the bytes as UTF-8 and JSON-parsing the text gives back the payload exactly.\<close>

theorem encode_blob_roundtrip: "decode_blob (encodeDataToBase64String s) = Some s"
proof -
  have "\<not> is_high_surrogate (0x22::u16) \<and> \<not> is_low_surrogate (0x22::u16)"
    by (simp add: ascii_unit_plain)
  then have wf: "well_formed_utf16 (json_quote s)"
    by (simp add: json_quote_def well_formed_Cons_plain quote_units_well_formed)
  have "utf8_to_string (buffer_from_string (json_quote s)) = Some (json_quote s)"
    using wf by (simp add: utf8_to_string_def buffer_from_string_def utf8_decode_concat
                           utf16_code_points_scalar utf16_code_points_roundtrip)
  then show ?thesis
    by (simp add: decode_blob_def encodeDataToBase64String_def base64_decode_encode
                  json_parse_string_def json_quote_def[of s] json_unquote_quote_units)
qed

text \<open>The base64 text is printable ASCII without quotation mark or reverse solidus, so
  \<open>JSON.stringify\<close> copies it between the quotation marks, as in the request body.\<close>

lemma b64_alphabet_printable:
  "\<forall>c\<in>set b64_alphabet \<union> {CHR ''=''}.
     (0x20::nat) \<le> of_char c \<and> of_char c < (128::nat) \<and> of_char c \<noteq> (0x22::nat) \<and> of_char c \<noteq> (0x5C::nat)"
  by (simp add: b64_alphabet_def)

lemma json_quote_base64:
  "json_quote (js_of_ascii (base64_encode bs)) = 0x22 # js_of_ascii (base64_encode bs) @ [0x22]"
  using base64_alphabet[of bs] b64_alphabet_printable by (intro json_quote_ascii) blast

end
