(* ===== verification/JsNumber.thy ===== *)
theory JsNumber
  imports Complex_Main Prelude
begin

text \<open>
  JavaScript numbers as the plugin meets them: \<open>parseFloat\<close> of a setting
  (\<open>src/packages/plugin-celestia/src/environment.ts\<close>, line 19), numbers inside JSON-RPC
  responses, and their conversion to text in a template literal. A finite number is kept
  as the exact decimal \<open>Dec neg m e\<close> (the value \<open>(-1)^neg * m * 10^e\<close>) that
  \<open>parseFloat\<close> or \<open>JSON.parse\<close> reads; the binary64 value is its rounding to
  nearest-even. The plugin observes that rounding only through its sign, its being zero and
  its being infinite, and these are decided exactly: a magnitude at most \<open>2^-1075\<close> rounds
  to zero (the tie at \<open>2^-1075\<close> goes to the even zero), and a magnitude at least
  \<open>2^1024 - 2^970\<close> rounds to infinity. \<open>number_to_string\<close> follows the formatting steps
  of ECMAScript's Number::toString on the normalised decimal; it equals the runtime's text
  whenever that decimal is the shortest round-trip digit string of its binary64 value
  (for instance every safe integer, and every decimal of at most 15 significant digits in
  the normal range). The shortest round-trip digit search itself is not modelled.
  Lemmas: the executable zero and overflow tests agree with the exact conditions, and
  \<open>parseFloat\<close> of a digit string followed by a character that cannot continue a decimal
  literal is that integer.
\<close>

datatype jsnum = NaN | Infinity bool | Dec bool nat int

text \<open>The exact value of a decimal, the reference for the rounding thresholds below.\<close>

definition dec_magnitude :: "nat \<Rightarrow> int \<Rightarrow> rat" where
  "dec_magnitude m e = of_nat m * 10 powi e"

definition zero_threshold :: nat where
  "zero_threshold = 2 ^ 1075"

text \<open>A magnitude rounds to zero iff it is at most \<open>2^-1075\<close>. The first two branches
  decide every decimal of fewer than 301 fractional digits without computing
  \<open>2^1075\<close>.\<close>

definition rounds_to_zero :: "nat \<Rightarrow> int \<Rightarrow> bool" where
  "rounds_to_zero m e =
     (if m = 0 then True
      else if 0 \<le> e \<or> - e \<le> 300 then False
      else m * zero_threshold \<le> 10 ^ nat (- e))"

definition overflow_bound :: nat where
  "overflow_bound = 2 ^ 1024 - 2 ^ 970"

definition decimal_digit :: "nat \<Rightarrow> char" where
  "decimal_digit d = ''0123456789'' ! d"

fun nat_digits :: "nat \<Rightarrow> string" where
  "nat_digits n =
     (if n < 10 then [decimal_digit n] else nat_digits (n div 10) @ [decimal_digit (n mod 10)])"

text \<open>A magnitude rounds to infinity iff it is at least \<open>2^1024 - 2^970\<close>; a decimal
  whose integer part has at most 300 digits is below that without computing it.\<close>

definition rounds_to_infinity :: "nat \<Rightarrow> int \<Rightarrow> bool" where
  "rounds_to_infinity m e =
     (if m = 0 \<or> int (length (nat_digits m)) + e \<le> 300 then False
      else if 0 \<le> e then overflow_bound \<le> m * 10 ^ nat e
      else overflow_bound * 10 ^ nat (- e) \<le> m)"

text \<open>\<open>x < 0\<close> on the binary64 value (false for \<open>-0\<close> and \<open>NaN\<close>).\<close>

fun num_is_negative :: "jsnum \<Rightarrow> bool" where
  "num_is_negative NaN = False"
| "num_is_negative (Infinity neg) = neg"
| "num_is_negative (Dec neg m e) = (neg \<and> \<not> rounds_to_zero m e)"

text \<open>ToBoolean of a number is false exactly for \<open>NaN\<close>, \<open>0\<close> and \<open>-0\<close>.\<close>

fun num_falsy :: "jsnum \<Rightarrow> bool" where
  "num_falsy NaN = True"
| "num_falsy (Infinity _) = False"
| "num_falsy (Dec _ m e) = rounds_to_zero m e"

subsection \<open>Number::toString\<close>

fun strip_trailing_zeros :: "nat \<Rightarrow> int \<Rightarrow> nat \<times> int" where
  "strip_trailing_zeros m e =
     (if m \<noteq> 0 \<and> m mod 10 = 0 then strip_trailing_zeros (m div 10) (e + 1) else (m, e))"

definition exponent_text :: "int \<Rightarrow> string" where
  "exponent_text x = CHR ''e'' # (if x < 0 then CHR ''-'' else CHR ''+'') # nat_digits (nat \<bar>x\<bar>)"

text \<open>Steps 6 to 10 of Number::toString for \<open>s * 10^(n - k)\<close>, \<open>s\<close> of \<open>k\<close> digits.\<close>

definition format_decimal :: "nat \<Rightarrow> int \<Rightarrow> string" where
  "format_decimal s e =
     (let ds = nat_digits s; k = int (length ds); n = e + k in
      if k \<le> n \<and> n \<le> 21 then ds @ replicate (nat (n - k)) (CHR ''0'')
      else if 0 < n \<and> n \<le> 21 then take (nat n) ds @ CHR ''.'' # drop (nat n) ds
      else if -6 < n \<and> n \<le> 0 then CHR ''0'' # CHR ''.'' # replicate (nat (- n)) (CHR ''0'') @ ds
      else if k = 1 then ds @ exponent_text (n - 1)
      else hd ds # CHR ''.'' # tl ds @ exponent_text (n - 1))"

fun number_to_string :: "jsnum \<Rightarrow> string" where
  "number_to_string NaN = ''NaN''"
| "number_to_string (Infinity neg) = (if neg then ''-Infinity'' else ''Infinity'')"
| "number_to_string (Dec neg m e) =
     (if rounds_to_zero m e then ''0''
      else if rounds_to_infinity m e then (if neg then ''-Infinity'' else ''Infinity'')
      else (let t = (case strip_trailing_zeros m e of (s, e') \<Rightarrow> format_decimal s e')
            in if neg then CHR ''-'' # t else t))"

subsection \<open>parseFloat\<close>

definition is_digit_unit :: "u16 \<Rightarrow> bool" where
  "is_digit_unit u \<longleftrightarrow> 48 \<le> unat u \<and> unat u \<le> 57"

definition digits_value :: "jstr \<Rightarrow> nat" where
  "digits_value ds = foldl (\<lambda>acc d. acc * 10 + (unat d - 48)) 0 ds"

text \<open>The ExponentPart after a mantissa; an \<open>e\<close> not followed by digits is not part of
  the longest numeric prefix and counts as no exponent.\<close>

definition scan_exponent :: "jstr \<Rightarrow> int" where
  "scan_exponent r =
     (case r of
        [] \<Rightarrow> 0
      | x # r' \<Rightarrow>
          if x = 0x65 \<or> x = 0x45 then
            (let (neg, r'') = (case r' of
                                 [] \<Rightarrow> (False, r')
                               | y # ys \<Rightarrow> if y = 0x2D then (True, ys)
                                          else if y = 0x2B then (False, ys) else (False, r'));
                 ds = takeWhile is_digit_unit r''
             in if ds = [] then 0
                else if neg then - int (digits_value ds) else int (digits_value ds))
          else 0)"

definition parse_unsigned :: "bool \<Rightarrow> jstr \<Rightarrow> jsnum" where
  "parse_unsigned neg t =
     (if take 8 t = js_of_ascii ''Infinity'' then Infinity neg
      else
        (let d1 = takeWhile is_digit_unit t; r1 = dropWhile is_digit_unit t;
             (d2, r2) = (case r1 of
                           [] \<Rightarrow> ([], [])
                         | x # r \<Rightarrow> if x = 0x2E then (takeWhile is_digit_unit r, dropWhile is_digit_unit r)
                                    else ([], r1))
         in if d1 = [] \<and> d2 = [] then NaN
            else Dec neg (digits_value (d1 @ d2)) (scan_exponent r2 - int (length d2))))"

definition parseFloat :: "jstr \<Rightarrow> jsnum" where
  "parseFloat s =
     (case dropWhile is_js_space s of
        [] \<Rightarrow> NaN
      | x # r \<Rightarrow>
          if x = 0x2D then parse_unsigned True r
          else if x = 0x2B then parse_unsigned False r
          else parse_unsigned False (x # r))"

subsection \<open>The rounding thresholds are exact\<close>


lemma ten_pow_300_lt: "(10::nat) ^ 300 < 2 ^ 1000"
proof -
  have "(10::nat) ^ 3 < 2 ^ 10" by simp
  then have "((10::nat) ^ 3) ^ 100 < (2 ^ 10) ^ 100"
    by (rule power_strict_mono) simp_all
  then show ?thesis by (simp only: power_mult[symmetric] numeral_times_numeral) simp
qed

lemma two_pow_1000_le_zero_threshold: "(2::nat) ^ 1000 \<le> zero_threshold"
  unfolding zero_threshold_def by (rule power_increasing) simp_all

lemma ten_pow_lt_zero_threshold: "k \<le> 300 \<Longrightarrow> (10::nat) ^ k < zero_threshold"
proof -
  assume "k \<le> 300"
  then have "(10::nat) ^ k \<le> 10 ^ 300" by (rule power_increasing) simp
  also have "\<dots> < 2 ^ 1000" by (rule ten_pow_300_lt)
  also have "\<dots> \<le> zero_threshold" by (rule two_pow_1000_le_zero_threshold)
  finally show ?thesis .
qed

lemma dec_magnitude_nonneg_exp: "0 \<le> e \<Longrightarrow> dec_magnitude m e = of_nat (m * 10 ^ nat e)"
  by (simp add: dec_magnitude_def power_int_def)

lemma dec_magnitude_neg_exp:
  "e < 0 \<Longrightarrow> dec_magnitude m e = of_nat m / of_nat (10 ^ nat (- e))"
  by (simp add: dec_magnitude_def power_int_def inverse_eq_divide power_one_over)

text \<open>The executable zero test on a decimal \<open>m * 10^e\<close> agrees with the exact
  condition: the magnitude times the threshold is at most 1.\<close>

lemma rounds_to_zero_exact:
  "rounds_to_zero m e \<longleftrightarrow> dec_magnitude m e * of_nat zero_threshold \<le> 1"
proof (cases "m = 0")
  case True
  then show ?thesis by (simp add: rounds_to_zero_def dec_magnitude_def)
next
  case m: False
  have zt: "1 < zero_threshold"
    unfolding zero_threshold_def by (rule one_less_power) simp_all
  show ?thesis
  proof (cases "0 \<le> e")
    case True
    have "1 \<le> m * 10 ^ nat e" using m by simp
    with zt have "1 < m * 10 ^ nat e * zero_threshold"
      by (metis less_1_mult mult.commute nat_less_le mult_1)
    then have "\<not> dec_magnitude m e * of_nat zero_threshold \<le> 1"
      using True by (simp add: dec_magnitude_nonneg_exp flip: of_nat_mult)
    with True m show ?thesis by (simp add: rounds_to_zero_def)
  next
    case False
    have pos: "(0::rat) < of_nat (10 ^ nat (- e))" by simp
    have "dec_magnitude m e * of_nat zero_threshold \<le> 1
            \<longleftrightarrow> (of_nat (m * zero_threshold) :: rat) \<le> of_nat (10 ^ nat (- e))"
      using False pos by (simp add: dec_magnitude_neg_exp divide_le_eq)
    also have "\<dots> \<longleftrightarrow> m * zero_threshold \<le> 10 ^ nat (- e)"
      by (rule of_nat_le_iff)
    finally have exact: "dec_magnitude m e * of_nat zero_threshold \<le> 1
                           \<longleftrightarrow> m * zero_threshold \<le> 10 ^ nat (- e)" .
    show ?thesis
    proof (cases "- e \<le> 300")
      case True
      then have "(10::nat) ^ nat (- e) < zero_threshold"
        by (intro ten_pow_lt_zero_threshold) simp
      also have "\<dots> \<le> m * zero_threshold" using m by simp
      finally show ?thesis using True m exact by (simp add: rounds_to_zero_def)
    next
      case big: False
      with m False exact show ?thesis by (simp add: rounds_to_zero_def)
    qed
  qed
qed


lemma nat_digits_bound: "n < 10 ^ length (nat_digits n)"
proof (induction n rule: nat_digits.induct)
  case (1 n)
  show ?case
  proof (cases "n < 10")
    case True
    then show ?thesis by simp
  next
    case False
    with "1.IH" have "n div 10 < 10 ^ length (nat_digits (n div 10))" by simp
    then have "n div 10 + 1 \<le> 10 ^ length (nat_digits (n div 10))" by simp
    then have "10 * (n div 10) + 10 \<le> 10 * 10 ^ length (nat_digits (n div 10))" by simp
    moreover have "n < 10 * (n div 10) + 10" by simp
    ultimately show ?thesis using False by simp
  qed
qed

lemma two_pow_1000_le_overflow_bound: "(2::nat) ^ 1000 \<le> overflow_bound"
proof -
  have a: "(2::nat) ^ 970 \<le> 2 ^ 1000" by (rule power_increasing) simp_all
  have b: "(2::nat) ^ Suc 1000 \<le> 2 ^ 1024" by (rule power_increasing) simp_all
  have c: "(2::nat) ^ Suc 1000 = 2 ^ 1000 + 2 ^ 1000" by (simp only: power_Suc mult_2)
  have d: "(2::nat) ^ 1000 + 2 ^ 1000 \<le> 2 ^ 1024" using b by (simp only: c)
  have gap: "\<And>x y z :: nat. x \<le> y \<Longrightarrow> y + y \<le> z \<Longrightarrow> y \<le> z - x" by arith
  show ?thesis unfolding overflow_bound_def by (rule gap[OF a d])
qed

lemma small_below_overflow:
  assumes "0 < m" "int (length (nat_digits m)) + e \<le> 300"
  shows "dec_magnitude m e < of_nat overflow_bound"
proof -
  let ?L = "length (nat_digits m)"
  have ob: "(10::nat) ^ 300 < overflow_bound"
    using ten_pow_300_lt two_pow_1000_le_overflow_bound by (rule less_le_trans)
  show ?thesis
  proof (cases "0 \<le> e")
    case True
    have "m * 10 ^ nat e < 10 ^ ?L * 10 ^ nat e"
      using nat_digits_bound[of m] by simp
    also have "\<dots> = 10 ^ (?L + nat e)" by (simp add: power_add)
    also have "\<dots> \<le> 10 ^ 300"
    proof (rule power_increasing)
      show "?L + nat e \<le> 300" using True assms(2) by linarith
    qed simp
    also note ob
    finally have "m * 10 ^ nat e < overflow_bound" .
    then have "(of_nat (m * 10 ^ nat e) :: rat) < of_nat overflow_bound"
      by (simp only: of_nat_less_iff)
    with True show ?thesis by (simp only: dec_magnitude_nonneg_exp)
  next
    case False
    let ?k = "nat (- e)"
    have "?L \<le> 300 + ?k" using False assms(2) by linarith
    then have "(10::nat) ^ ?L \<le> 10 ^ (300 + ?k)" by (rule power_increasing) simp
    also have "\<dots> = 10 ^ 300 * 10 ^ ?k" by (rule power_add)
    also have "\<dots> < overflow_bound * 10 ^ ?k" using ob by simp
    finally have "m < overflow_bound * 10 ^ ?k" using nat_digits_bound[of m] by linarith
    then have "(of_nat m :: rat) < of_nat overflow_bound * of_nat (10 ^ ?k)"
      by (simp only: of_nat_mult[symmetric] of_nat_less_iff)
    then have "(of_nat m :: rat) / of_nat (10 ^ ?k) < of_nat overflow_bound"
      by (simp add: divide_less_eq)
    then show ?thesis using False by (simp only: dec_magnitude_neg_exp not_le)
  qed
qed

text \<open>The executable overflow test agrees with the exact condition: the magnitude is at
  least \<open>overflow_bound\<close>.\<close>

lemma rounds_to_infinity_exact:
  "rounds_to_infinity m e \<longleftrightarrow> of_nat overflow_bound \<le> dec_magnitude m e"
proof (cases "m = 0 \<or> int (length (nat_digits m)) + e \<le> 300")
  case True
  have "dec_magnitude m e < of_nat overflow_bound"
  proof (cases "m = 0")
    case True
    have "(0::nat) < overflow_bound"
      using two_pow_1000_le_overflow_bound by (rule less_le_trans[rotated]) simp
    with True show ?thesis by (simp add: dec_magnitude_def)
  next
    case False
    with \<open>m = 0 \<or> _\<close> show ?thesis by (intro small_below_overflow) simp_all
  qed
  with True show ?thesis by (simp add: rounds_to_infinity_def)
next
  case False
  show ?thesis
  proof (cases "0 \<le> e")
    case True
    with False have "rounds_to_infinity m e = (overflow_bound \<le> m * 10 ^ nat e)"
      by (simp add: rounds_to_infinity_def)
    then show ?thesis by (simp only: dec_magnitude_nonneg_exp[OF True] of_nat_le_iff)
  next
    case neg: False
    with False have d: "rounds_to_infinity m e = (overflow_bound * 10 ^ nat (- e) \<le> m)"
      by (simp add: rounds_to_infinity_def)
    have pos: "(0::rat) < of_nat (10 ^ nat (- e))" by simp
    have "(of_nat overflow_bound \<le> (of_nat m :: rat) / of_nat (10 ^ nat (- e)))
            \<longleftrightarrow> (of_nat overflow_bound * of_nat (10 ^ nat (- e)) :: rat) \<le> of_nat m"
      using pos by (rule pos_le_divide_eq)
    also have "\<dots> \<longleftrightarrow> overflow_bound * 10 ^ nat (- e) \<le> m"
      by (simp only: of_nat_mult[symmetric] of_nat_le_iff)
    finally show ?thesis using neg by (simp only: d dec_magnitude_neg_exp not_le)
  qed
qed

subsection \<open>The longest numeric prefix\<close>

text \<open>A digit string followed by a character that cannot continue a decimal literal is
  read as that integer: \<open>parseFloat\<close> ignores whatever follows.\<close>

definition ends_literal :: "jstr \<Rightarrow> bool" where
  "ends_literal r \<longleftrightarrow>
     r = [] \<or> \<not> is_digit_unit (hd r) \<and> hd r \<noteq> 0x2E \<and> hd r \<noteq> 0x65 \<and> hd r \<noteq> 0x45"

lemma digit_not_space: "is_digit_unit u \<Longrightarrow> \<not> is_js_space u"
  by (simp add: is_digit_unit_def is_js_space_def Let_def)

lemma scan_exponent_ends: "ends_literal r \<Longrightarrow> scan_exponent r = 0"
  by (cases r) (simp_all add: ends_literal_def scan_exponent_def)

lemma parseFloat_digits_prefix:
  assumes "ds \<noteq> []" "list_all is_digit_unit ds" "ends_literal rest"
  shows "parseFloat (ds @ rest) = Dec False (digits_value ds) 0"
proof -
  obtain x xs where ds: "ds = x # xs" using assms(1) by (cases ds) auto
  have x: "is_digit_unit x" using assms(2) ds by simp
  then have sign: "x \<noteq> 0x2D" "x \<noteq> 0x2B" "x \<noteq> 0x49"
    by (auto simp: is_digit_unit_def)
  have "takeWhile is_digit_unit (ds @ rest) = ds \<and> dropWhile is_digit_unit (ds @ rest) = rest"
    using assms(2,3) by (cases rest) (auto simp: list_all_iff takeWhile_append2 dropWhile_append2
                                                ends_literal_def)
  then have tw: "takeWhile is_digit_unit (ds @ rest) = ds"
    and dw: "dropWhile is_digit_unit (ds @ rest) = rest" by simp_all
  have "parseFloat (ds @ rest) = parse_unsigned False (ds @ rest)"
    using ds sign digit_not_space[OF x] by (simp add: parseFloat_def)
  also have "\<dots> = Dec False (digits_value ds) 0"
  proof -
    have "take 8 (ds @ rest) \<noteq> js_of_ascii ''Infinity''"
      using sign(3) ds by (cases "xs @ rest") simp_all
    moreover have "(case rest of [] \<Rightarrow> ([], [])
                     | y # r \<Rightarrow> if y = 0x2E then (takeWhile is_digit_unit r, dropWhile is_digit_unit r)
                                else ([], rest)) = ([], rest)"
      using assms(3) by (cases rest) (simp_all add: ends_literal_def)
    ultimately show ?thesis
      using assms(1) scan_exponent_ends[OF assms(3)] by (simp add: parse_unsigned_def tw dw Let_def)
  qed
  finally show ?thesis .
qed

end
