(* ===== verification/Config.thy ===== *)
theory Config
  imports JsNumber
begin

text \<open>
  The configuration validator, \<open>src/packages/plugin-celestia/src/environment.ts\<close>.
  \<open>validateCelestiaConfig\<close> reads each of the three settings as
  \<open>runtime.getSetting(k) || process.env[k]\<close> (\<open>setting_or_env\<close>: a missing or empty
  setting falls back to the environment), applies \<open>parseFloat\<close> to the fee, and parses the
  object with the zod schema \<open>celestiaEnvSchema\<close>: two strings of length at least 1 and a
  number at least 0. Zod checks every key in the schema's order and collects all issues
  (\<open>zod_issue\<close>: the path and the message); on failure the function throws one \<open>Error\<close>
  whose message lists every issue as \<open>path: message\<close>, one per line. The runtime's
  \<open>getSetting\<close> and \<open>process.env\<close> are lookups \<open>string \<Rightarrow> jstr option\<close>, \<open>None\<close>
  for \<open>null\<close> or \<open>undefined\<close>.
\<close>

type_synonym lookup = "string \<Rightarrow> jstr option"

record celestiaConfig =
  CELESTIA_LIGHT_NODE_RPC_URL :: jstr
  CELESTIA_AI_AGENT_NAMESPACE :: jstr
  CELESTIA_DEFAULT_TX_FEE :: jsnum

datatype zod_issue = Issue string string

text \<open>JavaScript's \<open>a || b\<close> on a setting: a string is truthy when it is not empty.\<close>

definition setting_or_env :: "lookup \<Rightarrow> lookup \<Rightarrow> string \<Rightarrow> jstr option" where
  "setting_or_env settings env k =
     (case settings k of
        Some v \<Rightarrow> if v = [] then env k else Some v
      | None \<Rightarrow> env k)"

text \<open>\<open>parseFloat\<close> converts its argument to a string first: \<open>undefined\<close> becomes the text
  \<open>undefined\<close>, which parses to \<open>NaN\<close>.\<close>

definition parseFloat_value :: "jstr option \<Rightarrow> jsnum" where
  "parseFloat_value v = parseFloat (case v of None \<Rightarrow> js_of_ascii ''undefined'' | Some s \<Rightarrow> s)"

definition zod_string_min1 :: "string \<Rightarrow> string \<Rightarrow> jstr option \<Rightarrow> zod_issue list + jstr" where
  "zod_string_min1 key msg v =
     (case v of
        None \<Rightarrow> Inl [Issue key ''Required'']
      | Some s \<Rightarrow> if length s < 1 then Inl [Issue key msg] else Inr s)"

definition zod_number_min0 :: "string \<Rightarrow> string \<Rightarrow> jsnum \<Rightarrow> zod_issue list + jsnum" where
  "zod_number_min0 key msg n =
     (if n = NaN then Inl [Issue key ''Expected number, received nan'']
      else if num_is_negative n then Inl [Issue key msg]
      else Inr n)"

definition issues_of :: "zod_issue list + 'a \<Rightarrow> zod_issue list" where
  "issues_of r = (case r of Inl is \<Rightarrow> is | Inr _ \<Rightarrow> [])"

definition celestiaEnvSchema_parse ::
  "jstr option \<Rightarrow> jstr option \<Rightarrow> jsnum \<Rightarrow> zod_issue list + celestiaConfig" where
  "celestiaEnvSchema_parse url ns fee =
     (let r1 = zod_string_min1 ''CELESTIA_LIGHT_NODE_RPC_URL''
                 ''Celestia Light Node RPC URL is required'' url;
          r2 = zod_string_min1 ''CELESTIA_AI_AGENT_NAMESPACE''
                 ''Celestia AI Agent Namespace is required'' ns;
          r3 = zod_number_min0 ''CELESTIA_DEFAULT_TX_FEE''
                 ''Default Transaction Fee is required'' fee
      in case (r1, r2, r3) of
           (Inr u, Inr n, Inr f) \<Rightarrow>
             Inr \<lparr>CELESTIA_LIGHT_NODE_RPC_URL = u, CELESTIA_AI_AGENT_NAMESPACE = n,
                  CELESTIA_DEFAULT_TX_FEE = f\<rparr>
         | _ \<Rightarrow> Inl (issues_of r1 @ issues_of r2 @ issues_of r3))"

fun issue_line :: "zod_issue \<Rightarrow> string" where
  "issue_line (Issue path msg) = path @ '': '' @ msg"

definition config_error_message :: "zod_issue list \<Rightarrow> string" where
  "config_error_message issues =
     ''Celestia configuration validation failed:'' @ [CHR 0x0A]
     @ js_join [CHR 0x0A] (map issue_line issues)"

fun issue_path :: "zod_issue \<Rightarrow> string" where
  "issue_path (Issue p _) = p"

text \<open>Settings with the given fee text and the value \<open>x\<close> for every other key.\<close>

definition fee_settings :: "jstr \<Rightarrow> lookup" where
  "fee_settings fee k = (if k = ''CELESTIA_DEFAULT_TX_FEE'' then Some fee else Some (js_of_ascii ''x''))"

definition validateCelestiaConfig :: "lookup \<Rightarrow> lookup \<Rightarrow> js_error + celestiaConfig" where
  "validateCelestiaConfig settings env =
     (case celestiaEnvSchema_parse
             (setting_or_env settings env ''CELESTIA_LIGHT_NODE_RPC_URL'')
             (setting_or_env settings env ''CELESTIA_AI_AGENT_NAMESPACE'')
             (parseFloat_value (setting_or_env settings env ''CELESTIA_DEFAULT_TX_FEE'')) of
        Inl issues \<Rightarrow> Inl (Error (config_error_message issues))
      | Inr c \<Rightarrow> Inr c)"

subsection \<open>Behaviour of the validator\<close>

text \<open>The definitions that evaluate the validator on concrete settings.\<close>

lemmas validate_eval = validateCelestiaConfig_def setting_or_env_def celestiaEnvSchema_parse_def
  zod_string_min1_def zod_number_min0_def issues_of_def config_error_message_def
  parseFloat_value_def parseFloat_def parse_unsigned_def is_js_space_def is_digit_unit_def
  digits_value_def scan_exponent_def




lemma zod_string_min1_ok: "zod_string_min1 k m v = Inr s \<longleftrightarrow> v = Some s \<and> s \<noteq> []"
  by (auto simp: zod_string_min1_def split: option.splits)

lemma zod_number_min0_ok: "zod_number_min0 k m n = Inr f \<longleftrightarrow> n = f \<and> f \<noteq> NaN \<and> \<not> num_is_negative f"
  by (auto simp: zod_number_min0_def)

lemma issues_zod_string: "map issue_path (issues_of (zod_string_min1 k m v)) = (if v = None \<or> v = Some [] then [k] else [])"
  by (auto simp: zod_string_min1_def issues_of_def split: option.splits)

lemma issues_zod_number: "map issue_path (issues_of (zod_number_min0 k m n)) = (if n = NaN \<or> num_is_negative n then [k] else [])"
  by (auto simp: zod_number_min0_def issues_of_def)

lemma issues_of_Inr_iff: "issues_of r = [] \<longleftrightarrow> (\<exists>x. r = Inr x) \<or> r = Inl []"
  by (auto simp: issues_of_def split: sum.splits)

lemma zod_never_empty_issue: "zod_string_min1 k m v \<noteq> Inl []" "zod_number_min0 k m n \<noteq> Inl []"
  by (auto simp: zod_string_min1_def zod_number_min0_def split: option.splits)

text \<open>Claim C19: the schema reports one issue for each invalid field, in the schema's
  order, and none for a valid field: the issues are aggregated, not cut at the first.\<close>

theorem schema_issue_paths:
  "map issue_path (issues_of (celestiaEnvSchema_parse url ns fee)) =
     (if url = None \<or> url = Some [] then [''CELESTIA_LIGHT_NODE_RPC_URL''] else []) @
     (if ns = None \<or> ns = Some [] then [''CELESTIA_AI_AGENT_NAMESPACE''] else []) @
     (if fee = NaN \<or> num_is_negative fee then [''CELESTIA_DEFAULT_TX_FEE''] else [])"
  unfolding celestiaEnvSchema_parse_def Let_def
  by (auto simp: issues_of_def zod_string_min1_def zod_number_min0_def split: option.splits sum.splits)

text \<open>Claim C6: validation succeeds with config \<open>c\<close> exactly when both strings are
  present and non-empty and the fee parses to a number that is neither \<open>NaN\<close> nor
  negative, and \<open>c\<close> holds these values.\<close>

theorem validate_ok_iff:
  "validateCelestiaConfig S E = Inr c \<longleftrightarrow>
     setting_or_env S E ''CELESTIA_LIGHT_NODE_RPC_URL'' = Some (CELESTIA_LIGHT_NODE_RPC_URL c) \<and>
     CELESTIA_LIGHT_NODE_RPC_URL c \<noteq> [] \<and>
     setting_or_env S E ''CELESTIA_AI_AGENT_NAMESPACE'' = Some (CELESTIA_AI_AGENT_NAMESPACE c) \<and>
     CELESTIA_AI_AGENT_NAMESPACE c \<noteq> [] \<and>
     parseFloat_value (setting_or_env S E ''CELESTIA_DEFAULT_TX_FEE'') = CELESTIA_DEFAULT_TX_FEE c \<and>
     CELESTIA_DEFAULT_TX_FEE c \<noteq> NaN \<and> \<not> num_is_negative (CELESTIA_DEFAULT_TX_FEE c)"
  unfolding validateCelestiaConfig_def celestiaEnvSchema_parse_def Let_def
  by (cases c) (auto simp: zod_string_min1_def zod_number_min0_def split: option.splits sum.splits if_splits)


text \<open>Claim C27: validation reads only the longest numeric prefix of the fee setting: a
  digit string followed by anything that cannot continue a decimal literal (\<open>12abc\<close>,
  \<open>5 gwei\<close>) validates exactly as the digits alone, with the integer they spell as the
  fee; the handler still sends the whole text.\<close>

theorem validate_fee_numeric_prefix:
  assumes "ds \<noteq> []" "list_all is_digit_unit ds" "ends_literal rest"
  shows "validateCelestiaConfig (S(''CELESTIA_DEFAULT_TX_FEE'' := Some (ds @ rest))) E =
           validateCelestiaConfig (S(''CELESTIA_DEFAULT_TX_FEE'' := Some ds)) E \<and>
         parseFloat (ds @ rest) = Dec False (digits_value ds) 0"
proof -
  have "parseFloat ds = Dec False (digits_value ds) 0"
    using parseFloat_digits_prefix[OF assms(1,2), of "[]"] by (simp add: ends_literal_def)
  with assms(1) show ?thesis
    by (simp add: validateCelestiaConfig_def setting_or_env_def parseFloat_value_def
                  parseFloat_digits_prefix[OF assms])
qed

lemma validate_accepts_iff:
  "(\<exists>c. validateCelestiaConfig S E = Inr c) \<longleftrightarrow>
     setting_or_env S E ''CELESTIA_LIGHT_NODE_RPC_URL'' \<notin> {None, Some []} \<and>
     setting_or_env S E ''CELESTIA_AI_AGENT_NAMESPACE'' \<notin> {None, Some []} \<and>
     parseFloat_value (setting_or_env S E ''CELESTIA_DEFAULT_TX_FEE'') \<noteq> NaN \<and>
     \<not> num_is_negative (parseFloat_value (setting_or_env S E ''CELESTIA_DEFAULT_TX_FEE''))"
  unfolding validateCelestiaConfig_def celestiaEnvSchema_parse_def Let_def
  by (auto simp: zod_string_min1_def zod_number_min0_def split: option.splits sum.splits if_splits)

text \<open>Claim C28: \<open>min(0)\<close> is checked on the binary64 value, so a negative fee passes
  exactly when its magnitude is at most \<open>2^-1075\<close>, the values that round to \<open>-0\<close>:
  with the other settings present, a fee text that parses to \<open>-(m * 10^e)\<close> is accepted
  iff \<open>m * 10^e \<le> 2^-1075\<close>.\<close>

theorem validate_negative_fee:
  assumes "setting_or_env S E ''CELESTIA_DEFAULT_TX_FEE'' = Some t" "parseFloat t = Dec True m e"
  shows "(\<exists>c. validateCelestiaConfig S E = Inr c) \<longleftrightarrow>
           setting_or_env S E ''CELESTIA_LIGHT_NODE_RPC_URL'' \<notin> {None, Some []} \<and>
           setting_or_env S E ''CELESTIA_AI_AGENT_NAMESPACE'' \<notin> {None, Some []} \<and>
           of_nat m * 10 powi e \<le> (1 / 2 ^ 1075 :: rat)"
proof -
  have "rounds_to_zero m e \<longleftrightarrow> of_nat m * 10 powi e * 2 ^ 1075 \<le> (1::rat)"
    by (simp add: rounds_to_zero_exact dec_magnitude_def zero_threshold_def)
  also have "\<dots> \<longleftrightarrow> of_nat m * 10 powi e \<le> (1 / 2 ^ 1075 :: rat)"
    by (simp add: pos_le_divide_eq)
  finally show ?thesis
    using assms by (simp add: validate_accepts_iff parseFloat_value_def)
qed

subsection \<open>Witnesses\<close>

text \<open>The fee text \<open>12abc\<close> validates as \<open>12\<close>.\<close>

theorem validate_fee_numeric_prefix_witness:
  "validateCelestiaConfig ((fee_settings []) (''CELESTIA_DEFAULT_TX_FEE'' := Some (js_of_ascii ''12'' @ js_of_ascii ''abc''))) (\<lambda>_. None) =
     validateCelestiaConfig ((fee_settings []) (''CELESTIA_DEFAULT_TX_FEE'' := Some (js_of_ascii ''12''))) (\<lambda>_. None) \<and>
   parseFloat (js_of_ascii ''12'' @ js_of_ascii ''abc'') = Dec False 12 0"
proof -
  have "digits_value (js_of_ascii ''12'') = 12" by (simp add: digits_value_def)
  moreover have "ends_literal (js_of_ascii ''abc'')"
    by (simp add: ends_literal_def is_digit_unit_def)
  ultimately show ?thesis
    using validate_fee_numeric_prefix[of "js_of_ascii ''12''" "js_of_ascii ''abc''" "fee_settings []" "\<lambda>_. None"]
    by (simp add: is_digit_unit_def)
qed

text \<open>The fee text \<open>-1e-400\<close> rounds to \<open>-0\<close> and is accepted.\<close>

theorem validate_negative_fee_witness:
  "setting_or_env (fee_settings (js_of_ascii ''-1e-400'')) (\<lambda>_. None) ''CELESTIA_DEFAULT_TX_FEE'' =
     Some (js_of_ascii ''-1e-400'') \<and>
   parseFloat (js_of_ascii ''-1e-400'') = Dec True 1 (-400) \<and>
   (\<exists>c. validateCelestiaConfig (fee_settings (js_of_ascii ''-1e-400'')) (\<lambda>_. None) = Inr c)"
proof -
  have s: "setting_or_env (fee_settings (js_of_ascii ''-1e-400'')) (\<lambda>_. None) ''CELESTIA_DEFAULT_TX_FEE'' =
             Some (js_of_ascii ''-1e-400'')"
    by (simp add: setting_or_env_def fee_settings_def)
  have p: "parseFloat (js_of_ascii ''-1e-400'') = Dec True 1 (-400)"
    by (simp add: parseFloat_def parse_unsigned_def is_js_space_def is_digit_unit_def
                  digits_value_def scan_exponent_def)
  have "(1::rat) / 10 ^ 400 \<le> 1 / 2 ^ 1075" by (rule frac_le) simp_all
  then have "of_nat 1 * 10 powi (-400) \<le> (1 / 2 ^ 1075 :: rat)"
    by (simp add: power_int_def inverse_eq_divide power_one_over)
  moreover have "setting_or_env (fee_settings (js_of_ascii ''-1e-400'')) (\<lambda>_. None) ''CELESTIA_LIGHT_NODE_RPC_URL''
                   \<notin> {None, Some []} \<and>
                 setting_or_env (fee_settings (js_of_ascii ''-1e-400'')) (\<lambda>_. None) ''CELESTIA_AI_AGENT_NAMESPACE''
                   \<notin> {None, Some []}"
    by (simp add: setting_or_env_def fee_settings_def)
  ultimately show ?thesis
    using s p validate_negative_fee[OF s p] by blast
qed

end
