(* ===== verification/Json.thy ===== *)
theory Json
  imports JsonString JsNumber "HOL-Library.AList"
begin

text \<open>
  JSON values as the DA client builds and reads them: the request envelope that
  \<open>src/packages/plugin-celestia/src/functions/celestiaRequest.ts\<close> serialises with
  \<open>JSON.stringify\<close>, and the response that \<open>response.json()\<close> parses. Objects keep their
  members in order as an association list; a property read finds the last member with the
  key, as \<open>JSON.parse\<close> lets a later duplicate overwrite an earlier one. \<open>JSON.stringify\<close>
  prints the object JavaScript builds from the members (\<open>object_build\<close>: each key once, at
  its first position, with its last value), array-index keys first in ascending order
  (\<open>json_members\<close>); a number that rounds to an infinity is printed \<open>null\<close>. The lemmas
  show that an object literal with distinct non-index keys prints its members as
  written. A property read on
  a value gives \<open>Undefined\<close> or a value (\<open>jsval\<close>), and reading a property of
  \<open>undefined\<close> or \<open>null\<close> is the runtime's \<open>TypeError\<close>. \<open>js_truthy\<close> is ToBoolean.
\<close>

datatype json =
    JNull
  | JBool bool
  | JNum jsnum
  | JStr jstr
  | JArr "json list"
  | JObj "(jstr \<times> json) list"

datatype jsval = Undefined | Val json

definition js_comma :: jstr where "js_comma = js_of_ascii '',''"

text \<open>The members \<open>JSON.stringify\<close> prints for an object: building the object adds the
  members in order, a repeated key keeping its first position and taking the later value
  (\<open>AList.update\<close>); the own keys are then enumerated array indices first, in
  ascending numeric order, and the other keys in the order they were created.\<close>

definition is_array_index :: "jstr \<Rightarrow> bool" where
  "is_array_index k \<longleftrightarrow>
     k \<noteq> [] \<and> list_all is_digit_unit k \<and> (hd k = 0x30 \<longrightarrow> k = [0x30]) \<and>
     digits_value k < 4294967295"

definition object_build :: "(jstr \<times> json) list \<Rightarrow> (jstr \<times> json) list" where
  "object_build kvs = foldl (\<lambda>al kv. AList.update (fst kv) (snd kv) al) [] kvs"

definition json_members :: "(jstr \<times> json) list \<Rightarrow> (jstr \<times> json) list" where
  "json_members kvs =
     (let al = object_build kvs
      in sort_key (\<lambda>kv. digits_value (fst kv)) (filter (\<lambda>kv. is_array_index (fst kv)) al) @
         filter (\<lambda>kv. \<not> is_array_index (fst kv)) al)"

function json_stringify :: "json \<Rightarrow> jstr" where
  "json_stringify JNull = js_of_ascii ''null''"
| "json_stringify (JBool b) = js_of_ascii (if b then ''true'' else ''false'')"
| "json_stringify (JNum n) =
     js_of_ascii (case n of
                    Dec _ m e \<Rightarrow> if rounds_to_infinity m e then ''null'' else number_to_string n
                  | _ \<Rightarrow> ''null'')"
| "json_stringify (JStr s) = json_quote s"
| "json_stringify (JArr xs) =
     js_of_ascii ''['' @ js_join js_comma (map json_stringify xs) @ js_of_ascii '']''"
| "json_stringify (JObj kvs) =
     js_of_ascii ''{'' @
     js_join js_comma (map (\<lambda>kv. json_quote (fst kv) @ js_of_ascii '':'' @ json_stringify (snd kv))
                          (json_members kvs))
     @ js_of_ascii ''}''"
  by pat_completeness auto
termination
proof (relation "measure size")
  fix kvs :: "(jstr \<times> json) list" and kv
  assume kv: "kv \<in> set (json_members kvs)"
  have upd: "set (AList.update k v al) \<subseteq> insert (k, v) (set al)" for k v and al :: "(jstr \<times> json) list"
    by (induction al) auto
  have fold_sub: "set (foldl (\<lambda>al kv. AList.update (fst kv) (snd kv) al) acc xs) \<subseteq> set acc \<union> set xs"
    for acc xs :: "(jstr \<times> json) list"
  proof (induction xs arbitrary: acc)
    case (Cons x xs)
    then show ?case using upd[of "fst x" "snd x" acc] by fastforce
  qed simp
  have "kv \<in> set kvs"
    using kv fold_sub[of "[]" kvs] by (auto simp: json_members_def object_build_def Let_def)
  moreover obtain k v where "kv = (k, v)" by (cases kv)
  ultimately show "(snd kv, JObj kvs) \<in> measure size"
    by (auto dest!: split_list)
qed (auto dest!: split_list)

text \<open>\<open>x[k]\<close> for a key given as ASCII text; on arrays, strings, numbers and booleans the
  plugin only reads names that are not own properties (\<open>result\<close>, \<open>tx_hash\<close>) or the
  index \<open>0\<close>, handled by \<open>js_index0\<close>.\<close>

definition read_error :: "string \<Rightarrow> string \<Rightarrow> js_error" where
  "read_error what k =
     TypeError (''Cannot read properties of '' @ what @ '' (reading '' @ [CHR 0x27] @ k @ [CHR 0x27] @ '')'')"

fun js_get :: "jsval \<Rightarrow> string \<Rightarrow> js_error + jsval" where
  "js_get Undefined k = Inl (read_error ''undefined'' k)"
| "js_get (Val JNull) k = Inl (read_error ''null'' k)"
| "js_get (Val (JObj kvs)) k =
     Inr (case map_of (rev kvs) (js_of_ascii k) of None \<Rightarrow> Undefined | Some v \<Rightarrow> Val v)"
| "js_get (Val _) k = Inr Undefined"

text \<open>\<open>x[0]\<close>: the first element of an array, the first code unit of a string as a string,
  the member named \<open>0\<close> of an object.\<close>

fun js_index0 :: "jsval \<Rightarrow> js_error + jsval" where
  "js_index0 Undefined = Inl (read_error ''undefined'' ''0'')"
| "js_index0 (Val JNull) = Inl (read_error ''null'' ''0'')"
| "js_index0 (Val (JArr xs)) = Inr (case xs of [] \<Rightarrow> Undefined | x # _ \<Rightarrow> Val x)"
| "js_index0 (Val (JStr s)) = Inr (case s of [] \<Rightarrow> Undefined | u # _ \<Rightarrow> Val (JStr [u]))"
| "js_index0 (Val (JObj kvs)) = js_get (Val (JObj kvs)) ''0''"
| "js_index0 (Val _) = Inr Undefined"

fun js_truthy :: "jsval \<Rightarrow> bool" where
  "js_truthy Undefined = False"
| "js_truthy (Val JNull) = False"
| "js_truthy (Val (JBool b)) = b"
| "js_truthy (Val (JNum n)) = (\<not> num_falsy n)"
| "js_truthy (Val (JStr s)) = (s \<noteq> [])"
| "js_truthy (Val (JArr _)) = True"
| "js_truthy (Val (JObj _)) = True"

text \<open>ToString, as a template literal applies it to an interpolated value.\<close>

fun js_to_string :: "jsval \<Rightarrow> jstr"
  and json_to_string :: "json \<Rightarrow> jstr"
  and elem_to_string :: "json \<Rightarrow> jstr" where
  "js_to_string Undefined = js_of_ascii ''undefined''"
| "js_to_string (Val v) = json_to_string v"
| "json_to_string JNull = js_of_ascii ''null''"
| "json_to_string (JBool b) = js_of_ascii (if b then ''true'' else ''false'')"
| "json_to_string (JNum n) = js_of_ascii (number_to_string n)"
| "json_to_string (JStr s) = s"
| "json_to_string (JArr xs) = js_join js_comma (map elem_to_string xs)"
| "json_to_string (JObj _) = js_of_ascii ''[object Object]''"
| "elem_to_string JNull = []"
| "elem_to_string v = json_to_string v"

subsection \<open>Objects with plain keys\<close>

text \<open>An object literal whose keys are distinct and none an array index is printed with
  its members as written; the request envelope and its parameters are such objects.\<close>

lemma update_fresh: "k \<notin> fst ` set al \<Longrightarrow> AList.update k v al = al @ [(k, v)]"
  by (induction al) auto

lemma object_build_distinct:
  "distinct (map fst (acc @ kvs)) \<Longrightarrow>
     foldl (\<lambda>al kv. AList.update (fst kv) (snd kv) al) acc kvs = acc @ kvs"
proof (induction kvs arbitrary: acc)
  case (Cons kv kvs)
  then have "fst kv \<notin> fst ` set acc" by auto
  with Cons show ?case by (simp add: update_fresh)
qed simp

lemma json_members_plain:
  "distinct (map fst kvs) \<Longrightarrow> \<forall>kv\<in>set kvs. \<not> is_array_index (fst kv) \<Longrightarrow> json_members kvs = kvs"
  using object_build_distinct[of "[]" kvs]
  by (simp add: json_members_def object_build_def Let_def filter_id_conv filter_empty_conv)

lemma json_stringify_plain_object:
  "distinct (map fst kvs) \<Longrightarrow> \<forall>kv\<in>set kvs. \<not> is_array_index (fst kv) \<Longrightarrow>
     json_stringify (JObj kvs) =
       js_of_ascii ''{'' @
       js_join js_comma (map (\<lambda>kv. json_quote (fst kv) @ js_of_ascii '':'' @ json_stringify (snd kv)) kvs)
       @ js_of_ascii ''}''"
  by (simp add: json_members_plain)

lemma ascii_key_not_index:
  assumes "k \<noteq> []" "\<not> ((48::nat) \<le> of_char (hd k) \<and> of_char (hd k) \<le> (57::nat))"
  shows "\<not> is_array_index (js_of_ascii k)"
proof -
  have "of_char (hd k) < (65536::nat)"
    using nat_of_char_less_256[of "hd k"] by linarith
  then have "unat (of_nat (of_char (hd k)) :: u16) = of_char (hd k)"
    by (simp add: unat_of_nat)
  with assms show ?thesis
    by (cases k) (auto simp: is_array_index_def is_digit_unit_def)
qed

end
