(* ===== verification/Runtime.thy ===== *)
theory Runtime
  imports Json
begin

text \<open>
  The interface between the plugin and its runtime. Each external call the plugin makes is
  an event of the trace it produces (\<open>event\<close>): running a shell command
  (\<open>child_process.exec\<close>), an HTTP POST (\<open>fetch\<close>), a log line (\<open>elizaLogger\<close>) and a
  call of the action's \<open>callback\<close>. What the outside world answers is a \<open>world\<close>: the
  outcome of the command (it fails, or prints its standard output) and of the POST (a
  network failure, or a response whose body is JSON text, \<open>Some\<close> of the parsed value, or
  not JSON, \<open>None\<close>). Theorems quantify over every world, so every answer is covered.
\<close>

datatype exec_result = ExecFailed | ExecOk jstr

datatype fetch_result = NetworkError | Response "json option"

type_synonym headers = "(string \<times> jstr) list"

datatype event =
    Exec string
  | HttpPost jstr headers jstr
  | Log string
  | LogSuccess jstr
  | LogError string js_error
  | Callback jstr "(string \<times> jstr) list"

record world =
  exec_out :: exec_result
  fetch_out :: fetch_result

fun is_post :: "event \<Rightarrow> bool" where
  "is_post (HttpPost _ _ _) = True"
| "is_post _ = False"

fun is_exec :: "event \<Rightarrow> bool" where
  "is_exec (Exec _) = True"
| "is_exec _ = False"

fun is_callback :: "event \<Rightarrow> bool" where
  "is_callback (Callback _ _) = True"
| "is_callback _ = False"

end
