(* ===== verification/AuthToken.thy ===== *)
theory AuthToken
  imports Runtime
begin

text \<open>
  The auth token provider,
  \<open>src/packages/plugin-celestia/src/functions/fetchAuthKeyFromLightNode.ts\<close>: it runs the
  fixed command \<open>GET_AUTH_KEY_COMMAND\<close> once, returns its standard output with surrounding
  white space removed (\<open>String.prototype.trim\<close>, \<open>js_trim\<close>), and turns any failure of
  the command into \<open>Error('terminal_error')\<close>. No caching and no retry: every call is one
  \<open>Exec\<close> event.
\<close>

definition GET_AUTH_KEY_COMMAND :: string where
  "GET_AUTH_KEY_COMMAND =
     [CHR 0x0A] @ ''    docker exec zkvote-node-celestia bash -c '' @ [CHR 0x27]
     @ ''celestia $NODE_TYPE auth admin --p2p.network $CHAIN_ID'' @ [CHR 0x27] @ [CHR 0x0A]"

definition js_trim :: "jstr \<Rightarrow> jstr" where
  "js_trim s = rev (dropWhile is_js_space (rev (dropWhile is_js_space s)))"

definition fetchAuthKeyFromLightNode :: "exec_result \<Rightarrow> event list \<times> (js_error + jstr)" where
  "fetchAuthKeyFromLightNode r =
     ([Exec GET_AUTH_KEY_COMMAND],
      case r of
        ExecFailed \<Rightarrow> Inl (Error ''terminal_error'')
      | ExecOk stdout \<Rightarrow> Inr (js_trim stdout))"

subsection \<open>Trimming\<close>


lemma dropWhile_takeWhile_Nil: "takeWhile P (dropWhile P xs) = []"
  by (induction xs) auto

lemma rev_dropWhile_rev_Cons:
  assumes "\<not> P x"
  shows "\<exists>ys. rev (dropWhile P (rev (x # t))) = x # ys"
proof (cases "\<exists>y\<in>set (rev t). \<not> P y")
  case True
  then obtain y where "y \<in> set (rev t)" "\<not> P y" by blast
  then have "dropWhile P (rev t @ [x]) = dropWhile P (rev t) @ [x]" by (rule dropWhile_append1)
  then show ?thesis by simp
next
  case False
  then have "dropWhile P (rev t @ [x]) = dropWhile P [x]" by (subst dropWhile_append2) auto
  then have "dropWhile P (rev t @ [x]) = [x]" using assms by simp
  then show ?thesis by simp
qed

lemma takeWhile_rev_dropWhile_rev:
  "takeWhile P (rev (dropWhile P (rev (dropWhile P s)))) = []"
proof (cases "dropWhile P s")
  case Nil
  show ?thesis by (simp only: Nil) simp
next
  case (Cons x t)
  have px: "\<not> P x" using hd_dropWhile[of P s] Cons by simp
  obtain ys where eq: "rev (dropWhile P (rev (x # t))) = x # ys"
    using rev_dropWhile_rev_Cons[of P x t, OF px] by blast
  show ?thesis by (simp only: Cons eq) (simp add: px)
qed

lemma js_trim_no_surrounding_space:
  "takeWhile is_js_space (js_trim s) = [] \<and> takeWhile is_js_space (rev (js_trim s)) = []"
  by (simp add: js_trim_def dropWhile_takeWhile_Nil takeWhile_rev_dropWhile_rev)

lemma dropWhile_append_all:
  "list_all P a \<Longrightarrow> dropWhile P (a @ s) = dropWhile P s"
  by (induction a) auto

lemma dropWhile_rev_append_spaces:
  assumes "list_all P b"
  shows "dropWhile P (rev (dropWhile P (s @ b))) = dropWhile P (rev (dropWhile P s))"
proof (cases "\<exists>x\<in>set s. \<not> P x")
  case True
  then obtain x where "x \<in> set s" "\<not> P x" by blast
  then have "dropWhile P (s @ b) = dropWhile P s @ b" by (rule dropWhile_append1)
  with assms show ?thesis by (simp add: dropWhile_append_all list_all_rev)
next
  case False
  then have all: "\<forall>x\<in>set s. P x" by blast
  then have e1: "dropWhile P (s @ b) = dropWhile P b" by (subst dropWhile_append2) auto
  have e2: "dropWhile P b = []" using assms by (simp add: list_all_iff)
  have e3: "dropWhile P s = []" using all by simp
  show ?thesis by (simp only: e1 e2 e3)
qed

text \<open>Claim C29: trimming removes any leading and trailing white space: the token read
  from the command's output does not depend on the blanks and newlines around it.\<close>

theorem js_trim_strips:
  assumes "list_all is_js_space a" "list_all is_js_space b"
  shows "js_trim (a @ s @ b) = js_trim s"
proof -
  have "dropWhile is_js_space (a @ s @ b) = dropWhile is_js_space (s @ b)"
    by (rule dropWhile_append_all[OF assms(1)])
  then show ?thesis
    unfolding js_trim_def by (simp only: dropWhile_rev_append_spaces[OF assms(2)])
qed

text \<open>A token printed with a leading blank and a trailing newline, as the \<open>celestia\<close>
  command prints it.\<close>

theorem js_trim_strips_witness:
  "list_all is_js_space [0x20] \<and> list_all is_js_space [0x0A] \<and>
   js_trim ([0x20] @ js_of_ascii ''tok'' @ [0x0A]) = js_of_ascii ''tok''"
proof -
  have a: "list_all is_js_space [0x20]" and b: "list_all is_js_space [0x0A]"
    by (simp_all add: is_js_space_def)
  have "js_trim (js_of_ascii ''tok'') = js_of_ascii ''tok''"
    by (simp add: js_trim_def is_js_space_def)
  with js_trim_strips[OF a b, of "js_of_ascii ''tok''"] a b show ?thesis by simp
qed

end
