(* ===== verification/DAClient.thy ===== *)
theory DAClient
  imports AuthToken
begin

text \<open>
  The DA client, \<open>src/packages/plugin-celestia/src/functions/celestiaRequest.ts\<close>.
  \<open>celestiaRequest\<close> checks the endpoint with \<open>isURL\<close> and throws \<open>bad_request\<close> before
  any I/O; otherwise it fetches the auth token (\<open>fetchAuthKeyFromLightNode\<close>, one
  \<open>Exec\<close> event), POSTs the JSON-RPC 2.0 envelope \<open>rpc_request\<close> with the headers
  \<open>request_headers\<close> (one \<open>HttpPost\<close> event), and reads \<open>result\<close> of the parsed body
  (\<open>rpc_outcome\<close>): a falsy \<open>result\<close> gives the normalised empty result, a truthy one the
  body itself. Every exception inside the \<open>try\<close> (the token command failing, the network
  failing, a body that is not JSON, a body \<open>null\<close>) becomes \<open>fetch_error\<close>.
  \<open>isURL\<close> lives in \<open>utils/isURL.js\<close>, outside the sources: it is modelled from the
  specification (a scheme of letters, digits, \<open>+\<close>, \<open>-\<close>, \<open>.\<close> starting with a letter,
  then \<open>://\<close> and a non-empty host, no white space), and \<open>null\<close> is not a URL.
  \<open>da_spec\<close> is the specification's contract (section 4.4) with its five outcomes, and
  \<open>da_observe\<close> is what the caller of the code sees of each.
\<close>

subsection \<open>The endpoint check\<close>

definition is_ascii_alpha :: "u16 \<Rightarrow> bool" where
  "is_ascii_alpha u \<longleftrightarrow> (65 \<le> unat u \<and> unat u \<le> 90) \<or> (97 \<le> unat u \<and> unat u \<le> 122)"

definition is_scheme_unit :: "u16 \<Rightarrow> bool" where
  "is_scheme_unit u \<longleftrightarrow> is_ascii_alpha u \<or> is_digit_unit u \<or> u = 0x2B \<or> u = 0x2D \<or> u = 0x2E"

definition is_host_end :: "u16 \<Rightarrow> bool" where
  "is_host_end u \<longleftrightarrow> u = 0x2F \<or> u = 0x3F \<or> u = 0x23"

definition isURL :: "jstr option \<Rightarrow> bool" where
  "isURL v =
     (case v of
        None \<Rightarrow> False
      | Some s \<Rightarrow>
          (let scheme = takeWhile is_scheme_unit s; rest = dropWhile is_scheme_unit s;
               host = takeWhile (\<lambda>u. \<not> is_host_end u) (drop 3 rest)
           in scheme \<noteq> [] \<and> is_ascii_alpha (hd scheme) \<and> take 3 rest = js_of_ascii ''://'' \<and>
              host \<noteq> [] \<and> \<not> list_ex is_js_space s))"

subsection \<open>The request and the response\<close>

definition rpc_request :: "jstr \<Rightarrow> json list \<Rightarrow> json" where
  "rpc_request method params =
     JObj [(js_of_ascii ''jsonrpc'', JStr (js_of_ascii ''2.0'')),
           (js_of_ascii ''id'', JNum (Dec False 1 0)),
           (js_of_ascii ''method'', JStr method),
           (js_of_ascii ''params'', JArr params)]"

definition request_headers :: "jstr \<Rightarrow> headers" where
  "request_headers key =
     [(''Content-Type'', js_of_ascii ''application/json''),
      (''Authorization'', js_of_ascii ''Bearer '' @ key)]"

definition normalized_empty_result :: json where
  "normalized_empty_result =
     JObj [(js_of_ascii ''id'', JNum (Dec False 1 0)),
           (js_of_ascii ''jsonrpc'', JStr (js_of_ascii ''2.0'')),
           (js_of_ascii ''result'', JArr [])]"

definition rpc_outcome :: "fetch_result \<Rightarrow> js_error + json" where
  "rpc_outcome r =
     (case r of
        NetworkError \<Rightarrow> Inl (Error ''fetch_error'')
      | Response None \<Rightarrow> Inl (Error ''fetch_error'')
      | Response (Some body) \<Rightarrow>
          (case js_get (Val body) ''result'' of
             Inl _ \<Rightarrow> Inl (Error ''fetch_error'')
           | Inr res \<Rightarrow> if js_truthy res then Inr body else Inr normalized_empty_result))"

definition celestiaRequest ::
  "world \<Rightarrow> jstr option \<Rightarrow> jstr \<Rightarrow> json list \<Rightarrow> event list \<times> (js_error + json)" where
  "celestiaRequest w url method params =
     (case url of
        None \<Rightarrow> ([], Inl (Error ''bad_request''))
      | Some u \<Rightarrow>
          if \<not> isURL url then ([], Inl (Error ''bad_request''))
          else (case fetchAuthKeyFromLightNode (exec_out w) of
                  (ev, Inl _) \<Rightarrow> (ev, Inl (Error ''fetch_error''))
                | (ev, Inr key) \<Rightarrow>
                    (ev @ [HttpPost u (request_headers key) (json_stringify (rpc_request method params))],
                     rpc_outcome (fetch_out w))))"

subsection \<open>The contract of the specification\<close>

text \<open>Section 4.4 and 7 of the specification: an invalid endpoint, a failed credential
  fetch, a transport failure, the soft-success empty result, or the response.\<close>

datatype da_outcome =
    InvalidEndpoint
  | AuthFailed
  | TransportFailed
  | EmptyResult
  | Result json

definition da_spec :: "world \<Rightarrow> jstr option \<Rightarrow> da_outcome" where
  "da_spec w url =
     (if \<not> isURL url then InvalidEndpoint
      else if exec_out w = ExecFailed then AuthFailed
      else (case fetch_out w of
              NetworkError \<Rightarrow> TransportFailed
            | Response None \<Rightarrow> TransportFailed
            | Response (Some body) \<Rightarrow>
                (case js_get (Val body) ''result'' of
                   Inl _ \<Rightarrow> TransportFailed
                 | Inr res \<Rightarrow> if js_truthy res then Result body else EmptyResult)))"

fun da_observe :: "da_outcome \<Rightarrow> js_error + json" where
  "da_observe InvalidEndpoint = Inl (Error ''bad_request'')"
| "da_observe AuthFailed = Inl (Error ''fetch_error'')"
| "da_observe TransportFailed = Inl (Error ''fetch_error'')"
| "da_observe EmptyResult = Inr normalized_empty_result"
| "da_observe (Result body) = Inr body"

subsection \<open>Example inputs\<close>

definition node_url :: jstr where "node_url = js_of_ascii ''http://localhost:26658''"

text \<open>The specification's response \<open>{"jsonrpc":"2.0","id":1}\<close>, without \<open>result\<close>.\<close>

definition body_without_result :: json where
  "body_without_result =
     JObj [(js_of_ascii ''jsonrpc'', JStr (js_of_ascii ''2.0'')), (js_of_ascii ''id'', JNum (Dec False 1 0))]"

subsection \<open>Behaviour of the client\<close>

lemma isURL_Some: "isURL url \<Longrightarrow> \<exists>u. url = Some u"
  by (cases url) (simp_all add: isURL_def)

lemma celestiaRequest_valid:
  "isURL (Some u) \<Longrightarrow> celestiaRequest w (Some u) m p =
     (case exec_out w of
        ExecFailed \<Rightarrow> ([Exec GET_AUTH_KEY_COMMAND], Inl (Error ''fetch_error''))
      | ExecOk out \<Rightarrow>
          ([Exec GET_AUTH_KEY_COMMAND,
            HttpPost u (request_headers (js_trim out)) (json_stringify (rpc_request m p))],
           rpc_outcome (fetch_out w)))"
  by (simp add: celestiaRequest_def fetchAuthKeyFromLightNode_def split: exec_result.split)

lemma celestiaRequest_invalid:
  "\<not> isURL url \<Longrightarrow> celestiaRequest w url m p = ([], Inl (Error ''bad_request''))"
  by (cases url) (simp_all add: celestiaRequest_def)

lemmas celestiaRequest_cases = celestiaRequest_valid celestiaRequest_invalid

lemma celestiaRequest_trace_cases:
  "fst (celestiaRequest w url m p) = [] \<or>
   fst (celestiaRequest w url m p) = [Exec GET_AUTH_KEY_COMMAND] \<or>
   (\<exists>u h b. fst (celestiaRequest w url m p) = [Exec GET_AUTH_KEY_COMMAND, HttpPost u h b])"
proof (cases "isURL url")
  case True
  then obtain u where "url = Some u" using isURL_Some by blast
  with True show ?thesis by (simp add: celestiaRequest_valid split: exec_result.split)
qed (simp add: celestiaRequest_invalid)

lemma rpc_outcome_spec:
  "exec_out w = ExecOk out \<Longrightarrow> isURL url \<Longrightarrow> rpc_outcome (fetch_out w) = da_observe (da_spec w url)"
  by (simp add: rpc_outcome_def da_spec_def split: fetch_result.split option.split sum.split)

text \<open>Claim C3: the client refines the specification's contract: what \<open>celestiaRequest\<close>
  returns or throws is, in every world and for every endpoint, the observation of the
  contract's outcome.\<close>

theorem celestiaRequest_refines_spec:
  "snd (celestiaRequest w url m p) = da_observe (da_spec w url)"
proof (cases "isURL url")
  case True
  then obtain u where u: "url = Some u" using isURL_Some by blast
  show ?thesis
  proof (cases "exec_out w")
    case ExecFailed
    with True u show ?thesis by (simp add: celestiaRequest_valid da_spec_def)
  next
    case (ExecOk out)
    with True u show ?thesis by (simp add: celestiaRequest_valid rpc_outcome_spec)
  qed
next
  case False
  then show ?thesis by (simp add: celestiaRequest_invalid da_spec_def)
qed

text \<open>Claim C15: a failed credential fetch cannot be told apart from a network failure:
  both throw \<open>fetch_error\<close>, where the specification lists \<open>AuthError\<close> and
  \<open>TransportError\<close> as distinct kinds.\<close>

theorem auth_failure_is_fetch_error:
  assumes "isURL url" "exec_out w1 = ExecFailed"
    and "exec_out w2 = ExecOk out" "fetch_out w2 = NetworkError"
  shows "snd (celestiaRequest w1 url m p) = snd (celestiaRequest w2 url m p)"
proof -
  obtain u where "url = Some u" using isURL_Some[OF assms(1)] by blast
  with assms show ?thesis by (simp add: celestiaRequest_valid rpc_outcome_def)
qed

text \<open>Claim C4: an endpoint that is not a URL fails with \<open>bad_request\<close> before anything
  happens: no command runs and no request is sent; and a valid endpoint always runs the
  token command first.\<close>

theorem celestiaRequest_fail_fast:
  "celestiaRequest w url m p = ([], Inl (Error ''bad_request'')) \<longleftrightarrow> \<not> isURL url"
proof (cases "isURL url")
  case True
  then obtain u where "url = Some u" using isURL_Some by blast
  with True show ?thesis by (simp add: celestiaRequest_valid split: exec_result.split)
qed (simp add: celestiaRequest_invalid)

text \<open>The specification's invalid endpoints \<open>not a url\<close> and the empty string,
  and a missing setting, are not URLs; a light node's address is.\<close>

theorem isURL_examples:
  "\<not> isURL (Some (js_of_ascii ''not a url'')) \<and> \<not> isURL (Some []) \<and> \<not> isURL None \<and>
   isURL (Some (js_of_ascii ''http://localhost:26658''))"
  by (simp add: isURL_def is_scheme_unit_def is_ascii_alpha_def is_digit_unit_def
                is_host_end_def is_js_space_def)

text \<open>Claim C17: the trace of a request is a prefix of \<open>[Exec, HttpPost]\<close>: the token
  command runs at most once, the request is sent at most once, and never before the
  command.\<close>

theorem celestiaRequest_trace:
  "\<exists>n post. n \<le> 2 \<and> is_post post \<and>
     fst (celestiaRequest w url m p) = take n [Exec GET_AUTH_KEY_COMMAND, post]"
proof (cases "isURL url")
  case True
  then obtain u where u: "url = Some u" using isURL_Some by blast
  show ?thesis
  proof (cases "exec_out w")
    case ExecFailed
    with True u show ?thesis
      by (intro exI[of _ 1] exI[of _ "HttpPost u [] []"]) (simp add: celestiaRequest_valid)
  next
    case (ExecOk out)
    with True u show ?thesis
      by (intro exI[of _ 2]
            exI[of _ "HttpPost u (request_headers (js_trim out)) (json_stringify (rpc_request m p))"])
         (simp add: celestiaRequest_valid)
  qed
next
  case False
  then show ?thesis
    by (intro exI[of _ 0] exI[of _ "HttpPost [] [] []"]) (simp add: celestiaRequest_invalid)
qed

text \<open>Claim C8: with a valid endpoint and a working token command, exactly one request is
  sent, to the endpoint, with the JSON content type, the trimmed token as bearer
  credential, and the JSON-RPC 2.0 envelope (id 1, the method, the parameters) as body.\<close>

theorem celestiaRequest_post:
  assumes "isURL (Some u)" "exec_out w = ExecOk out"
  shows "fst (celestiaRequest w (Some u) m p) =
           [Exec GET_AUTH_KEY_COMMAND,
            HttpPost u [(''Content-Type'', js_of_ascii ''application/json''),
                        (''Authorization'', js_of_ascii ''Bearer '' @ js_trim out)]
              (json_stringify (JObj [(js_of_ascii ''jsonrpc'', JStr (js_of_ascii ''2.0'')),
                                     (js_of_ascii ''id'', JNum (Dec False 1 0)),
                                     (js_of_ascii ''method'', JStr m),
                                     (js_of_ascii ''params'', JArr p)]))]"
  using assms by (simp add: celestiaRequest_valid request_headers_def rpc_request_def)

text \<open>Claim C16: a token command that fails gives \<open>fetch_error\<close> after the one command,
  and no request is sent.\<close>

theorem celestiaRequest_auth_failure:
  assumes "isURL url" "exec_out w = ExecFailed"
  shows "celestiaRequest w url m p = ([Exec GET_AUTH_KEY_COMMAND], Inl (Error ''fetch_error''))"
proof -
  obtain u where "url = Some u" using isURL_Some[OF assms(1)] by blast
  with assms show ?thesis by (simp add: celestiaRequest_valid)
qed

text \<open>Claim C7: a response whose \<open>result\<close> is absent or falsy is not an error: the client
  returns the normalised empty result \<open>{id: 1, jsonrpc: "2.0", result: []}\<close>.\<close>

theorem celestiaRequest_normalizes:
  assumes "isURL url" "exec_out w = ExecOk out" "fetch_out w = Response (Some body)"
    and "js_get (Val body) ''result'' = Inr res" "\<not> js_truthy res"
  shows "snd (celestiaRequest w url m p) = Inr normalized_empty_result"
proof -
  obtain u where "url = Some u" using isURL_Some[OF assms(1)] by blast
  with assms show ?thesis by (simp add: celestiaRequest_valid rpc_outcome_def)
qed

text \<open>The JSON text of the envelope for any method and parameters: the members in the
  order of the object literal, the number \<open>1\<close> printed as \<open>1\<close>.\<close>

lemma rpc_request_text:
  \<open>json_stringify (rpc_request m ps) =
     js_of_ascii ''{"jsonrpc":"2.0","id":1,"method":'' @ json_quote m @
     js_of_ascii '',"params":['' @ js_join js_comma (map json_stringify ps) @ js_of_ascii '']}''\<close>
  by (simp add: rpc_request_def json_members_plain is_array_index_def is_digit_unit_def
      json_quote_def quote_single_def escape_unit_def
      is_high_surrogate_def is_low_surrogate_def js_comma_def strip_trailing_zeros.simps
      format_decimal_def decimal_digit_def rounds_to_zero_def rounds_to_infinity_def)

text \<open>A request in the trace of \<open>celestiaRequest\<close> goes to the endpoint setting, carries
  the trimmed output of the token command, and its body is the envelope.\<close>

lemma celestiaRequest_post_event:
  assumes "HttpPost u h b \<in> set (fst (celestiaRequest w url m p))"
  shows "url = Some u \<and> (\<exists>out. exec_out w = ExecOk out \<and> h = request_headers (js_trim out)) \<and>
         b = json_stringify (rpc_request m p)"
proof -
  have "isURL url" using assms celestiaRequest_invalid by fastforce
  then obtain v where v: "url = Some v" using isURL_Some by blast
  with assms \<open>isURL url\<close> show ?thesis
    by (auto simp: celestiaRequest_valid split: exec_result.splits)
qed

text \<open>Claim C18: every request that is sent carries the token as \<open>Bearer\<close> credential
  with no white space around it, whatever the command printed.\<close>

theorem celestiaRequest_bearer_trimmed:
  assumes "HttpPost u h b \<in> set (fst (celestiaRequest w url m p))"
  shows "\<exists>t. h = request_headers t \<and> takeWhile is_js_space t = [] \<and> takeWhile is_js_space (rev t) = []"
  using celestiaRequest_post_event[OF assms] js_trim_no_surrounding_space by blast

subsection \<open>Witnesses\<close>

lemma isURL_node_url: "isURL (Some node_url)"
  by (simp add: node_url_def isURL_def is_scheme_unit_def is_ascii_alpha_def is_digit_unit_def
                is_host_end_def is_js_space_def)

text \<open>A token command that fails, and a network that fails after a token was issued.\<close>

theorem auth_failure_is_fetch_error_witness:
  "snd (celestiaRequest \<lparr>exec_out = ExecFailed, fetch_out = NetworkError\<rparr> (Some node_url) (js_of_ascii ''state.SubmitPayForBlob'') []) =
   snd (celestiaRequest \<lparr>exec_out = ExecOk (js_of_ascii ''tok''), fetch_out = NetworkError\<rparr>
          (Some node_url) (js_of_ascii ''state.SubmitPayForBlob'') [])"
  by (rule auth_failure_is_fetch_error) (simp_all add: isURL_node_url)

theorem celestiaRequest_post_witness:
  "fst (celestiaRequest \<lparr>exec_out = ExecOk (js_of_ascii '' tok''), fetch_out = NetworkError\<rparr>
          (Some node_url) (js_of_ascii ''state.SubmitPayForBlob'') []) =
   [Exec GET_AUTH_KEY_COMMAND,
    HttpPost node_url [(''Content-Type'', js_of_ascii ''application/json''),
                       (''Authorization'', js_of_ascii ''Bearer '' @ js_trim (js_of_ascii '' tok''))]
      (json_stringify (JObj [(js_of_ascii ''jsonrpc'', JStr (js_of_ascii ''2.0'')),
                             (js_of_ascii ''id'', JNum (Dec False 1 0)),
                             (js_of_ascii ''method'', JStr (js_of_ascii ''state.SubmitPayForBlob'')),
                             (js_of_ascii ''params'', JArr [])]))]"
  by (rule celestiaRequest_post) (simp_all add: isURL_node_url)

theorem celestiaRequest_auth_failure_witness:
  "celestiaRequest \<lparr>exec_out = ExecFailed, fetch_out = NetworkError\<rparr> (Some node_url) (js_of_ascii ''state.SubmitPayForBlob'') [] =
   ([Exec GET_AUTH_KEY_COMMAND], Inl (Error ''fetch_error''))"
  by (rule celestiaRequest_auth_failure) (simp_all add: isURL_node_url)

theorem celestiaRequest_normalizes_witness:
  "snd (celestiaRequest \<lparr>exec_out = ExecOk (js_of_ascii ''tok''),
                         fetch_out = Response (Some body_without_result)\<rparr> (Some node_url) (js_of_ascii ''state.SubmitPayForBlob'') []) =
   Inr normalized_empty_result"
proof (rule celestiaRequest_normalizes[where res = Undefined and body = body_without_result])
  show "js_get (Val body_without_result) ''result'' = Inr Undefined"
    by (simp add: body_without_result_def)
qed (simp_all add: isURL_node_url)

text \<open>The command prints the token with a leading blank.\<close>

theorem celestiaRequest_bearer_trimmed_witness:
  "\<exists>t. request_headers (js_trim (js_of_ascii '' tok'')) = request_headers t \<and>
       takeWhile is_js_space t = [] \<and> takeWhile is_js_space (rev t) = []"
  by (rule celestiaRequest_bearer_trimmed[where u = node_url
        and b = "json_stringify (rpc_request (js_of_ascii ''state.SubmitPayForBlob'') [])"
        and w = "\<lparr>exec_out = ExecOk (js_of_ascii '' tok''), fetch_out = NetworkError\<rparr>"
        and url = "Some node_url" and m = "js_of_ascii ''state.SubmitPayForBlob''" and p = "[]"])
     (simp add: celestiaRequest_valid isURL_node_url)

end
