(* ===== verification/SubmitBlob.thy ===== *)
theory SubmitBlob
  imports Encoder Config DAClient
begin

text \<open>
  The handler and \<open>validate\<close> of the action \<open>SUBMIT_BLOB\<close>,
  \<open>src/packages/plugin-celestia/src/actions/submitBlob.ts\<close>, with the result formatter
  \<open>functions/getCeleniumURL.ts\<close>. The handler logs its start, asks the language model for
  the payload (its outcome is the parameter \<open>gen\<close>: the generated object, or the error that composing
  the state or generating threw), stops with \<open>No data to submit\<close> when
  \<open>content?.data\<close> is falsy, reads the three settings with \<open>runtime.getSetting\<close> (a
  lookup; \<open>None\<close> is \<open>null\<close>), encodes the payload, calls \<open>celestiaRequest\<close> with
  \<open>state.SubmitPayForBlob\<close>, reads \<open>result[0].tx_hash\<close> of the response, logs and reports
  the explorer link and returns \<open>true\<close>. Every exception of the \<open>try\<close> block ends in the
  \<open>catch\<close>: an error log, the callback \<open>Error during blob submission\<close> with
  \<open>content.error\<close> the message, and \<open>false\<close>. \<open>submitBlob_try\<close> is the \<open>try\<close> block,
  \<open>submitBlob_handler\<close> the whole handler; each returns its trace of events.
\<close>

subsection \<open>The result formatter\<close>

definition getCeleniumURL :: "jstr \<Rightarrow> jstr" where
  "getCeleniumURL txHash = js_of_ascii ''https://mocha-4.celenium.io/tx/'' @ txHash"

definition success_text :: "jstr \<Rightarrow> jstr" where
  "success_text url = js_of_ascii ''Blob submitted successfully! Check it out on Celenium: '' @ url"

subsection \<open>The pieces of the handler\<close>

text \<open>\<open>content?.data\<close>: optional chaining gives \<open>undefined\<close> on \<open>undefined\<close> and \<open>null\<close>.\<close>

definition optional_data :: "jsval \<Rightarrow> jsval" where
  "optional_data v =
     (case v of
        Undefined \<Rightarrow> Undefined
      | Val JNull \<Rightarrow> Undefined
      | _ \<Rightarrow> (case js_get v ''data'' of Inl _ \<Rightarrow> Undefined | Inr d \<Rightarrow> d))"

text \<open>\<open>encodeDataToBase64String\<close> applied to whatever the model returned as \<open>data\<close>:
  \<open>JSON.stringify\<close> of the value, UTF-8, base64. On a string \<open>JStr s\<close> this is
  \<open>encodeDataToBase64String s\<close> of \<open>Encoder\<close>, since \<open>json_stringify (JStr s)\<close> is
  \<open>json_quote s\<close>.\<close>

definition encode_value :: "json \<Rightarrow> string" where
  "encode_value v = base64_encode (buffer_from_string (json_stringify v))"

text \<open>A setting inside the request body: its string, or \<open>null\<close>.\<close>

definition setting_json :: "jstr option \<Rightarrow> json" where
  "setting_json v = (case v of None \<Rightarrow> JNull | Some s \<Rightarrow> JStr s)"

definition submit_params :: "jstr option \<Rightarrow> string \<Rightarrow> jstr option \<Rightarrow> json list" where
  "submit_params ns encoded fee =
     [JArr [JObj [(js_of_ascii ''namespace_id'', setting_json ns),
                  (js_of_ascii ''data'', JStr (js_of_ascii encoded))]],
      JObj [(js_of_ascii ''gas_price'', setting_json fee),
            (js_of_ascii ''is_gas_price_set'', JBool True)]]"

text \<open>\<open>celestiaResponse.result[0].tx_hash\<close>, each read throwing on \<open>undefined\<close> or \<open>null\<close>.\<close>

definition tx_hash_of :: "json \<Rightarrow> js_error + jsval" where
  "tx_hash_of resp =
     (case js_get (Val resp) ''result'' of
        Inl e \<Rightarrow> Inl e
      | Inr r \<Rightarrow> (case js_index0 r of Inl e \<Rightarrow> Inl e | Inr x \<Rightarrow> js_get x ''tx_hash''))"

definition callback_events :: "bool \<Rightarrow> jstr \<Rightarrow> (string \<times> jstr) list \<Rightarrow> event list" where
  "callback_events cb text content = (if cb then [Callback text content] else [])"

definition submit_method :: jstr where
  "submit_method = js_of_ascii ''state.SubmitPayForBlob''"

subsection \<open>The handler\<close>

text \<open>Lines 105 to 116: the response of \<open>celestiaRequest\<close>, or what it threw, turned into
  the success report.\<close>

definition submit_response ::
  "bool \<Rightarrow> event list \<times> (js_error + json) \<Rightarrow> event list \<times> (js_error + bool)" where
  "submit_response cb req =
     (case req of
        (ev, Inl e) \<Rightarrow> (ev, Inl e)
      | (ev, Inr resp) \<Rightarrow>
          (case tx_hash_of resp of
             Inl e \<Rightarrow> (ev, Inl e)
           | Inr h \<Rightarrow>
               (let msg = success_text (getCeleniumURL (js_to_string h))
                in (ev @ LogSuccess msg # callback_events cb msg [], Inr True))))"

definition submitBlob_try ::
  "world \<Rightarrow> lookup \<Rightarrow> js_error + jsval \<Rightarrow> bool \<Rightarrow> event list \<times> (js_error + bool)" where
  "submitBlob_try w getSetting gen cb =
     (case gen of
        Inl e \<Rightarrow> ([], Inl e)
      | Inr content \<Rightarrow>
          (case optional_data content of
             Undefined \<Rightarrow>
               (Log ''No data to submit'' # callback_events cb (js_of_ascii ''No data to submit'') [],
                Inr False)
           | Val d \<Rightarrow>
               if \<not> js_truthy (Val d) then
                 (Log ''No data to submit'' # callback_events cb (js_of_ascii ''No data to submit'') [],
                  Inr False)
               else
                 (let url = getSetting ''CELESTIA_LIGHT_NODE_RPC_URL'';
                      ns = getSetting ''CELESTIA_AI_AGENT_NAMESPACE'';
                      fee = getSetting ''CELESTIA_DEFAULT_TX_FEE'';
                      encoded = encode_value d
                  in submit_response cb
                       (celestiaRequest w url submit_method (submit_params ns encoded fee)))))"

definition submitBlob_handler ::
  "world \<Rightarrow> lookup \<Rightarrow> js_error + jsval \<Rightarrow> bool \<Rightarrow> event list \<times> bool" where
  "submitBlob_handler w getSetting gen cb =
     (case submitBlob_try w getSetting gen cb of
        (ev, Inr b) \<Rightarrow> (Log ''Starting SUBMIT_BLOB handler...'' # ev, b)
      | (ev, Inl e) \<Rightarrow>
          (Log ''Starting SUBMIT_BLOB handler...'' # ev @
           LogError ''Error during blob submission:'' e #
           callback_events cb (js_of_ascii ''Error during blob submission'')
             [(''error'', js_of_ascii (error_message e))],
           False))"

text \<open>\<open>validate\<close>: the configuration check, whose error propagates to the caller.\<close>

definition submitBlob_validate :: "lookup \<Rightarrow> lookup \<Rightarrow> js_error + bool" where
  "submitBlob_validate getSetting env =
     (case validateCelestiaConfig getSetting env of Inl e \<Rightarrow> Inl e | Inr _ \<Rightarrow> Inr True)"

subsection \<open>Example inputs\<close>

text \<open>Settings of a deployment, the model's answer for the payload \<open>Hello World!\<close>, and a
  world where the token command prints \<open>tok\<close> and the node answers with \<open>body\<close>.\<close>

definition demo_settings :: lookup where
  "demo_settings k =
     (if k = ''CELESTIA_LIGHT_NODE_RPC_URL'' then Some node_url
      else if k = ''CELESTIA_AI_AGENT_NAMESPACE'' then Some (js_of_ascii ''0x42690c204d39600fddd3'')
      else if k = ''CELESTIA_DEFAULT_TX_FEE'' then Some (js_of_ascii ''0.002'')
      else None)"

definition hello_content :: jsval where
  "hello_content = Val (JObj [(js_of_ascii ''data'', JStr (js_of_ascii ''Hello World!''))])"

definition demo_world :: "json \<Rightarrow> world" where
  "demo_world body = \<lparr>exec_out = ExecOk (js_of_ascii ''tok''), fetch_out = Response (Some body)\<rparr>"

text \<open>The specification's response \<open>{"result":[{"tx_hash":"ABC123"}]}\<close>, and one whose
  first result has no hash.\<close>

definition tx_response :: json where
  "tx_response =
     JObj [(js_of_ascii ''result'', JArr [JObj [(js_of_ascii ''tx_hash'', JStr (js_of_ascii ''ABC123''))]])]"

definition no_hash_response :: json where
  "no_hash_response = JObj [(js_of_ascii ''result'', JArr [JObj []])]"

subsection \<open>Lemmas on the pieces\<close>


lemma submitBlob_try_no_data:
  "\<not> js_truthy (optional_data c) \<Longrightarrow> submitBlob_try w S (Inr c) cb =
     (Log ''No data to submit'' # callback_events cb (js_of_ascii ''No data to submit'') [], Inr False)"
  by (cases "optional_data c") (simp_all add: submitBlob_try_def)

lemma submitBlob_try_data:
  "optional_data c = Val d \<Longrightarrow> js_truthy (Val d) \<Longrightarrow> submitBlob_try w S (Inr c) cb =
     submit_response cb
       (celestiaRequest w (S ''CELESTIA_LIGHT_NODE_RPC_URL'') submit_method
          (submit_params (S ''CELESTIA_AI_AGENT_NAMESPACE'') (encode_value d) (S ''CELESTIA_DEFAULT_TX_FEE'')))"
  by (simp add: submitBlob_try_def)

lemma submitBlob_try_cases:
  obtains (gen_error) e where "g = Inl e" "submitBlob_try w S g cb = ([], Inl e)"
  | (no_data) c where "g = Inr c" "\<not> js_truthy (optional_data c)"
      "submitBlob_try w S g cb =
         (Log ''No data to submit'' # callback_events cb (js_of_ascii ''No data to submit'') [], Inr False)"
  | (data) c d where "g = Inr c" "optional_data c = Val d" "js_truthy (Val d)"
      "submitBlob_try w S g cb =
         submit_response cb
           (celestiaRequest w (S ''CELESTIA_LIGHT_NODE_RPC_URL'') submit_method
              (submit_params (S ''CELESTIA_AI_AGENT_NAMESPACE'') (encode_value d) (S ''CELESTIA_DEFAULT_TX_FEE'')))"
proof (cases g)
  case (Inl e)
  then show ?thesis using gen_error by (simp add: submitBlob_try_def)
next
  case (Inr c)
  show ?thesis
  proof (cases "js_truthy (optional_data c)")
    case True
    then obtain d where "optional_data c = Val d" by (cases "optional_data c") simp_all
    with Inr True show ?thesis using data by (simp add: submitBlob_try_data)
  next
    case False
    with Inr show ?thesis using no_data by (simp add: submitBlob_try_no_data)
  qed
qed

lemma celestiaRequest_quiet:
  "filter is_callback (fst (celestiaRequest w url m p)) = [] \<and>
   (\<forall>msg. LogSuccess msg \<notin> set (fst (celestiaRequest w url m p)))"
  using celestiaRequest_trace_cases[of w url m p] by auto

lemma submit_response_cases:
  "submit_response cb (ev, Inl e) = (ev, Inl e)"
  "tx_hash_of resp = Inl e \<Longrightarrow> submit_response cb (ev, Inr resp) = (ev, Inl e)"
  "tx_hash_of resp = Inr h \<Longrightarrow> submit_response cb (ev, Inr resp) =
     (ev @ LogSuccess (success_text (getCeleniumURL (js_to_string h))) #
        callback_events cb (success_text (getCeleniumURL (js_to_string h))) [], Inr True)"
  by (simp_all add: submit_response_def Let_def)

lemma submit_response_counts:
  assumes "filter is_callback ev = []" "\<forall>msg. LogSuccess msg \<notin> set ev"
  shows "length (filter is_callback (fst (submit_response cb (ev, r)))) =
           (case snd (submit_response cb (ev, r)) of Inl _ \<Rightarrow> 0 | Inr _ \<Rightarrow> if cb then 1 else 0) \<and>
         (\<exists>msg. LogSuccess msg \<in> set (fst (submit_response cb (ev, r)))) =
           (snd (submit_response cb (ev, r)) = Inr True)"
proof (cases r)
  case (Inl e)
  with assms show ?thesis by (simp add: submit_response_cases)
next
  case (Inr resp)
  with assms show ?thesis
    by (cases "tx_hash_of resp") (auto simp: submit_response_cases callback_events_def)
qed

lemma submitBlob_try_counts:
  "length (filter is_callback (fst (submitBlob_try w S g cb))) =
     (case snd (submitBlob_try w S g cb) of Inl _ \<Rightarrow> 0 | Inr _ \<Rightarrow> if cb then 1 else 0) \<and>
   (\<exists>msg. LogSuccess msg \<in> set (fst (submitBlob_try w S g cb))) =
     (snd (submitBlob_try w S g cb) = Inr True)"
proof (cases rule: submitBlob_try_cases[of g w S cb])
  case (data c d)
  obtain ev r where req: "celestiaRequest w (S ''CELESTIA_LIGHT_NODE_RPC_URL'') submit_method
      (submit_params (S ''CELESTIA_AI_AGENT_NAMESPACE'') (encode_value d)
         (S ''CELESTIA_DEFAULT_TX_FEE'')) = (ev, r)"
    by (rule prod.exhaust)
  have "filter is_callback ev = []" "\<forall>msg. LogSuccess msg \<notin> set ev"
    using celestiaRequest_quiet req by (metis fst_conv)+
  from submit_response_counts[OF this, of cb r] show ?thesis
    by (simp only: data(4) req)
qed (simp_all add: callback_events_def)

lemma submitBlob_handler_cases:
  "submitBlob_try w S g cb = (ev, Inr b) \<Longrightarrow>
     submitBlob_handler w S g cb = (Log ''Starting SUBMIT_BLOB handler...'' # ev, b)"
  "submitBlob_try w S g cb = (ev, Inl e) \<Longrightarrow>
     submitBlob_handler w S g cb =
       (Log ''Starting SUBMIT_BLOB handler...'' # ev @ LogError ''Error during blob submission:'' e #
        callback_events cb (js_of_ascii ''Error during blob submission'')
          [(''error'', js_of_ascii (error_message e))], False)"
  by (simp_all add: submitBlob_handler_def)

lemma tx_hash_of_truthy:
  assumes "tx_hash_of body = Inr h"
  shows "\<exists>res. js_get (Val body) ''result'' = Inr res \<and> js_truthy res"
proof (cases "js_get (Val body) ''result''")
  case (Inr res)
  have "js_truthy res"
  proof (rule ccontr)
    assume "\<not> js_truthy res"
    then have "js_index0 res = Inl (read_error ''undefined'' ''0'') \<or>
               js_index0 res = Inl (read_error ''null'' ''0'') \<or> js_index0 res = Inr Undefined"
      by (cases res rule: js_truthy.cases) (auto split: list.split)
    with Inr assms show False by (auto simp: tx_hash_of_def)
  qed
  with Inr show ?thesis by blast
qed (use assms in \<open>simp add: tx_hash_of_def\<close>)

lemma submitBlob_handler_counts:
  "length (filter is_callback (fst (submitBlob_handler w S g cb))) = (if cb then 1 else 0) \<and>
   snd (submitBlob_handler w S g cb) =
     (\<exists>msg. LogSuccess msg \<in> set (fst (submitBlob_handler w S g cb)))"
proof -
  obtain ev r where tr: "submitBlob_try w S g cb = (ev, r)" by (rule prod.exhaust)
  have counts: "length (filter is_callback ev) = (case r of Inl _ \<Rightarrow> 0 | Inr _ \<Rightarrow> if cb then 1 else 0)"
    "(\<exists>msg. LogSuccess msg \<in> set ev) = (r = Inr True)"
    using submitBlob_try_counts[of w S g cb] by (simp_all add: tr)
  show ?thesis
  proof (cases r)
    case (Inl e)
    with tr counts show ?thesis by (simp add: submitBlob_handler_cases callback_events_def)
  next
    case (Inr b)
    with tr counts show ?thesis by (simp add: submitBlob_handler_cases)
  qed
qed

lemma submitBlob_try_success:
  assumes "optional_data c = Val d" "js_truthy (Val d)"
    and "snd (celestiaRequest w (S ''CELESTIA_LIGHT_NODE_RPC_URL'') submit_method
           (submit_params (S ''CELESTIA_AI_AGENT_NAMESPACE'') (encode_value d) (S ''CELESTIA_DEFAULT_TX_FEE''))) = Inr body"
    and "tx_hash_of body = Inr h"
  shows "submitBlob_try w S (Inr c) cb =
     (fst (celestiaRequest w (S ''CELESTIA_LIGHT_NODE_RPC_URL'') submit_method
        (submit_params (S ''CELESTIA_AI_AGENT_NAMESPACE'') (encode_value d) (S ''CELESTIA_DEFAULT_TX_FEE''))) @
      LogSuccess (success_text (getCeleniumURL (js_to_string h))) #
      callback_events cb (success_text (getCeleniumURL (js_to_string h))) [], Inr True)"
  using assms by (simp add: submitBlob_try_data submit_response_def prod.case_eq_if Let_def)

lemma rpc_outcome_tx_hash:
  "fetch_out w = Response (Some body) \<Longrightarrow> tx_hash_of body = Inr h \<Longrightarrow> rpc_outcome (fetch_out w) = Inr body"
  using tx_hash_of_truthy[of body h] by (auto simp: rpc_outcome_def)

lemma filter_exec_post_submit_response:
  "filter (\<lambda>e. is_exec e \<or> is_post e) (fst (submit_response cb (ev, r))) =
     filter (\<lambda>e. is_exec e \<or> is_post e) ev"
  by (cases r) (auto simp: submit_response_def Let_def callback_events_def split: sum.split)

lemma exec_post_prefix:
  assumes "xs = [] \<or> xs = [Exec c] \<or> (\<exists>u h b. xs = [Exec c, HttpPost u h b])"
  shows "\<exists>n post. n \<le> 2 \<and> is_post post \<and>
           filter (\<lambda>e. is_exec e \<or> is_post e) xs = take n [Exec c, post]"
  using assms
proof (elim disjE exE)
  assume "xs = []"
  then show ?thesis by (intro exI[of _ 0] exI[of _ "HttpPost [] [] []"]) simp
next
  assume "xs = [Exec c]"
  then show ?thesis by (intro exI[of _ 1] exI[of _ "HttpPost [] [] []"]) simp
next
  fix u h b
  assume "xs = [Exec c, HttpPost u h b]"
  then show ?thesis by (intro exI[of _ 2] exI[of _ "HttpPost u h b"]) simp
qed

subsection \<open>Properties of the handler\<close>

text \<open>Claim C11: whatever the model, the settings and the outside world do, the handler
  calls the callback exactly once when one is given, and never otherwise.\<close>

theorem submitBlob_one_callback:
  "length (filter is_callback (fst (submitBlob_handler w S g cb))) = (if cb then 1 else 0)"
  using submitBlob_handler_counts by blast

text \<open>Claim C12: the handler returns \<open>true\<close> exactly when it has logged a successful
  submission.\<close>

theorem submitBlob_true_iff_success_logged:
  "snd (submitBlob_handler w S g cb) \<longleftrightarrow>
     (\<exists>msg. LogSuccess msg \<in> set (fst (submitBlob_handler w S g cb)))"
  using submitBlob_handler_counts by blast

text \<open>Claim C14: when the model gives no data (\<open>content?.data\<close> falsy), the handler
  reports \<open>No data to submit\<close> and returns \<open>false\<close> without running the token command
  or sending a request.\<close>

theorem submitBlob_no_data:
  assumes "\<not> js_truthy (optional_data c)"
  shows "submitBlob_handler w S (Inr c) cb =
           ([Log ''Starting SUBMIT_BLOB handler...'', Log ''No data to submit''] @
              callback_events cb (js_of_ascii ''No data to submit'') [], False)"
  using assms by (simp add: submitBlob_try_no_data submitBlob_handler_cases)

text \<open>Claim C2: with data, a valid endpoint setting, a working token command and a
  response whose \<open>result[0].tx_hash\<close> reads as \<open>h\<close>, the handler runs the command,
  sends one request whose parameters hold the namespace setting, the encoded payload and
  the fee setting as given (a string, not the validated number), logs and reports the
  explorer link of \<open>h\<close>, and returns \<open>true\<close>.\<close>

theorem submitBlob_success:
  assumes "optional_data c = Val d" "js_truthy (Val d)"
    and "S ''CELESTIA_LIGHT_NODE_RPC_URL'' = Some u" "isURL (Some u)"
    and "exec_out w = ExecOk out" "fetch_out w = Response (Some body)"
    and "tx_hash_of body = Inr h"
  shows "submitBlob_handler w S (Inr c) cb =
     ([Log ''Starting SUBMIT_BLOB handler...'', Exec GET_AUTH_KEY_COMMAND,
       HttpPost u (request_headers (js_trim out))
         (json_stringify (rpc_request (js_of_ascii ''state.SubmitPayForBlob'')
            [JArr [JObj [(js_of_ascii ''namespace_id'', setting_json (S ''CELESTIA_AI_AGENT_NAMESPACE'')),
                         (js_of_ascii ''data'', JStr (js_of_ascii (encode_value d)))]],
             JObj [(js_of_ascii ''gas_price'', setting_json (S ''CELESTIA_DEFAULT_TX_FEE'')),
                   (js_of_ascii ''is_gas_price_set'', JBool True)]])),
       LogSuccess (success_text (getCeleniumURL (js_to_string h)))] @
      callback_events cb (success_text (getCeleniumURL (js_to_string h))) [], True)"
proof -
  have "rpc_outcome (fetch_out w) = Inr body" using assms(6,7) by (rule rpc_outcome_tx_hash)
  with assms have "submitBlob_try w S (Inr c) cb =
     ([Exec GET_AUTH_KEY_COMMAND,
       HttpPost u (request_headers (js_trim out))
         (json_stringify (rpc_request submit_method
            (submit_params (S ''CELESTIA_AI_AGENT_NAMESPACE'') (encode_value d) (S ''CELESTIA_DEFAULT_TX_FEE''))))] @
      LogSuccess (success_text (getCeleniumURL (js_to_string h))) #
      callback_events cb (success_text (getCeleniumURL (js_to_string h))) [], Inr True)"
    by (simp add: submitBlob_try_success celestiaRequest_valid)
  then show ?thesis
    by (simp add: submitBlob_handler_cases submit_method_def submit_params_def)
qed

text \<open>Claim C5: a response without a usable \<open>result\<close> is normalised by the client into
  \<open>{result: []}\<close>, and the handler's \<open>result[0].tx_hash\<close> then throws a \<open>TypeError\<close>:
  the specification's soft success ends as a reported failure.\<close>

theorem submitBlob_empty_result_fails:
  assumes "optional_data c = Val d" "js_truthy (Val d)"
    and "S ''CELESTIA_LIGHT_NODE_RPC_URL'' = Some u" "isURL (Some u)"
    and "exec_out w = ExecOk out" "fetch_out w = Response (Some body)"
    and "js_get (Val body) ''result'' = Inr res" "\<not> js_truthy res"
  shows "snd (submitBlob_handler w S (Inr c) cb) = False \<and>
         drop 3 (fst (submitBlob_handler w S (Inr c) cb)) =
           LogError ''Error during blob submission:''
             (TypeError (''Cannot read properties of undefined (reading '' @ [CHR 0x27] @ ''tx_hash'' @ [CHR 0x27] @ '')'')) #
           callback_events cb (js_of_ascii ''Error during blob submission'')
             [(''error'', js_of_ascii (''Cannot read properties of undefined (reading '' @ [CHR 0x27] @ ''tx_hash'' @ [CHR 0x27] @ '')''))]"
proof -
  have "tx_hash_of normalized_empty_result = Inl (read_error ''undefined'' ''tx_hash'')"
    by (simp add: tx_hash_of_def normalized_empty_result_def)
  with assms have "submitBlob_try w S (Inr c) cb =
     ([Exec GET_AUTH_KEY_COMMAND,
       HttpPost u (request_headers (js_trim out))
         (json_stringify (rpc_request submit_method
            (submit_params (S ''CELESTIA_AI_AGENT_NAMESPACE'') (encode_value d) (S ''CELESTIA_DEFAULT_TX_FEE''))))],
      Inl (read_error ''undefined'' ''tx_hash''))"
    by (simp add: submitBlob_try_data celestiaRequest_valid rpc_outcome_def submit_response_cases)
  then show ?thesis by (simp add: submitBlob_handler_cases read_error_def)
qed

text \<open>Claim C26: a response whose \<open>result[0]\<close> has no \<open>tx_hash\<close> is reported as a
  success, with the explorer link of the transaction \<open>undefined\<close>.\<close>

theorem submitBlob_missing_tx_hash:
  assumes "optional_data c = Val d" "js_truthy (Val d)"
    and "S ''CELESTIA_LIGHT_NODE_RPC_URL'' = Some u" "isURL (Some u)"
    and "exec_out w = ExecOk out" "fetch_out w = Response (Some body)"
    and "tx_hash_of body = Inr Undefined"
  shows "snd (submitBlob_handler w S (Inr c) True) = True \<and>
         last (fst (submitBlob_handler w S (Inr c) True)) =
           Callback (js_of_ascii
             ''Blob submitted successfully! Check it out on Celenium: https://mocha-4.celenium.io/tx/undefined'') []"
proof -
  have "rpc_outcome (fetch_out w) = Inr body" using assms(6,7) by (rule rpc_outcome_tx_hash)
  with assms have "snd (celestiaRequest w (S ''CELESTIA_LIGHT_NODE_RPC_URL'') submit_method
           (submit_params (S ''CELESTIA_AI_AGENT_NAMESPACE'') (encode_value d) (S ''CELESTIA_DEFAULT_TX_FEE''))) = Inr body"
    by (simp add: celestiaRequest_valid)
  from submitBlob_try_success[OF assms(1,2) this assms(7), of True] show ?thesis
    by (simp add: submitBlob_handler_cases callback_events_def success_text_def getCeleniumURL_def)
qed

text \<open>Claim C24: the handler reads the endpoint with \<open>getSetting\<close> alone: when the setting is
  missing it throws \<open>bad_request\<close> before any command or request, even where
  \<open>validate\<close> accepted the configuration from the environment.\<close>

theorem submitBlob_setting_missing:
  assumes "optional_data c = Val d" "js_truthy (Val d)"
    and "S ''CELESTIA_LIGHT_NODE_RPC_URL'' = None"
  shows "submitBlob_handler w S (Inr c) cb =
     ([Log ''Starting SUBMIT_BLOB handler...'',
       LogError ''Error during blob submission:'' (Error ''bad_request'')] @
      callback_events cb (js_of_ascii ''Error during blob submission'') [(''error'', js_of_ascii ''bad_request'')],
      False)"
proof -
  have "\<not> isURL None" by (simp add: isURL_def)
  with assms have "submitBlob_try w S (Inr c) cb = ([], Inl (Error ''bad_request''))"
    by (simp add: submitBlob_try_data celestiaRequest_invalid submit_response_cases)
  then show ?thesis by (simp add: submitBlob_handler_cases)
qed

text \<open>Claim C10: in every run of the handler the token command runs at most once, the
  request is sent at most once, and never before the command.\<close>

theorem submitBlob_trace_order:
  "\<exists>n post. n \<le> 2 \<and> is_post post \<and>
     filter (\<lambda>e. is_exec e \<or> is_post e) (fst (submitBlob_handler w S g cb)) =
       take n [Exec GET_AUTH_KEY_COMMAND, post]"
proof -
  have other: "filter (\<lambda>e. is_exec e \<or> is_post e) (fst (submitBlob_handler w S g cb)) =
               filter (\<lambda>e. is_exec e \<or> is_post e) (fst (submitBlob_try w S g cb))"
    by (cases "submitBlob_try w S g cb" rule: prod.exhaust, rename_tac ev r, case_tac r)
       (auto simp: submitBlob_handler_cases callback_events_def)
  show ?thesis
  proof (cases rule: submitBlob_try_cases[of g w S cb])
    case (data c d)
    let ?R = "celestiaRequest w (S ''CELESTIA_LIGHT_NODE_RPC_URL'') submit_method
              (submit_params (S ''CELESTIA_AI_AGENT_NAMESPACE'') (encode_value d) (S ''CELESTIA_DEFAULT_TX_FEE''))"
    have "filter (\<lambda>e. is_exec e \<or> is_post e) (fst (submitBlob_try w S g cb)) =
          filter (\<lambda>e. is_exec e \<or> is_post e) (fst ?R)"
      using filter_exec_post_submit_response[of cb "fst ?R" "snd ?R"] by (simp add: data(4))
    with other exec_post_prefix[OF celestiaRequest_trace_cases] show ?thesis by simp
  qed (use other exec_post_prefix[of "[]"] in \<open>simp_all add: callback_events_def\<close>)
qed

lemma submit_response_posts:
  "HttpPost u h b \<in> set (fst (submit_response cb (ev, r))) \<Longrightarrow> HttpPost u h b \<in> set ev"
  by (cases r) (auto simp: submit_response_def Let_def callback_events_def split: sum.splits)

lemma submitBlob_handler_posts:
  "HttpPost u h b \<in> set (fst (submitBlob_handler w S g cb)) \<Longrightarrow>
     HttpPost u h b \<in> set (fst (submitBlob_try w S g cb))"
  by (cases "submitBlob_try w S g cb" rule: prod.exhaust, rename_tac ev r, case_tac r)
     (auto simp: submitBlob_handler_cases callback_events_def)

lemma submit_response_prefix: "\<exists>tl. fst (submit_response cb (ev, r)) = ev @ tl"
  by (cases r) (auto simp: submit_response_def Let_def split: sum.splits)

lemma submitBlob_try_events_in_handler:
  "set (fst (submitBlob_try w S g cb)) \<subseteq> set (fst (submitBlob_handler w S g cb))"
  by (cases "submitBlob_try w S g cb" rule: prod.exhaust, rename_tac ev r, case_tac r)
     (auto simp: submitBlob_handler_cases)

lemma submit_params_members:
  "json_members [(js_of_ascii ''namespace_id'', a), (js_of_ascii ''data'', b)] =
     [(js_of_ascii ''namespace_id'', a), (js_of_ascii ''data'', b)]"
  "json_members [(js_of_ascii ''gas_price'', a), (js_of_ascii ''is_gas_price_set'', b)] =
     [(js_of_ascii ''gas_price'', a), (js_of_ascii ''is_gas_price_set'', b)]"
  by (simp_all add: json_members_plain is_array_index_def is_digit_unit_def)

lemma json_quote_encode_value:
  "json_quote (js_of_ascii (encode_value d)) = 0x22 # js_of_ascii (encode_value d) @ [0x22]"
  by (simp add: encode_value_def json_quote_base64)

text \<open>Claim C9: every request the handler sends is the JSON-RPC call
  \<open>state.SubmitPayForBlob\<close> to the endpoint setting, and its body is exactly this text:
  the envelope members in order, the namespace and fee settings as JSON strings (or
  \<open>null\<close>), and the encoded payload as a string copied without escapes.\<close>

theorem submitBlob_request_body:
  assumes "HttpPost u h b \<in> set (fst (submitBlob_handler w S g cb))"
  shows \<open>\<exists>c d. g = Inr c \<and> optional_data c = Val d \<and> S ''CELESTIA_LIGHT_NODE_RPC_URL'' = Some u \<and>
     b = js_of_ascii ''{"jsonrpc":"2.0","id":1,"method":"state.SubmitPayForBlob","params":[[{"namespace_id":'' @
         json_stringify (setting_json (S ''CELESTIA_AI_AGENT_NAMESPACE'')) @
         js_of_ascii ('',"data":"'' @ encode_value d @ ''"}],{"gas_price":'') @
         json_stringify (setting_json (S ''CELESTIA_DEFAULT_TX_FEE'')) @
         js_of_ascii '',"is_gas_price_set":true}]}''\<close>
proof -
  have tr: "HttpPost u h b \<in> set (fst (submitBlob_try w S g cb))"
    using assms by (rule submitBlob_handler_posts)
  show ?thesis
  proof (cases rule: submitBlob_try_cases[of g w S cb])
    case (data c d)
    let ?R = "celestiaRequest w (S ''CELESTIA_LIGHT_NODE_RPC_URL'') submit_method
              (submit_params (S ''CELESTIA_AI_AGENT_NAMESPACE'') (encode_value d) (S ''CELESTIA_DEFAULT_TX_FEE''))"
    have "HttpPost u h b \<in> set (fst ?R)"
      using tr submit_response_posts[of u h b cb "fst ?R" "snd ?R"] by (simp add: data(4))
    then have "S ''CELESTIA_LIGHT_NODE_RPC_URL'' = Some u \<and>
               b = json_stringify (rpc_request submit_method
                     (submit_params (S ''CELESTIA_AI_AGENT_NAMESPACE'') (encode_value d) (S ''CELESTIA_DEFAULT_TX_FEE'')))"
      by (blast dest: celestiaRequest_post_event)
    moreover have "json_stringify (JStr (js_of_ascii (encode_value d))) =
                     0x22 # js_of_ascii (encode_value d) @ [0x22]"
      by (simp add: json_quote_encode_value)
    ultimately show ?thesis using data(1,2)
      by (simp only: rpc_request_text submit_params_def list.map json_stringify.simps(2,5,6)
                     submit_params_members fst_conv snd_conv)
         (simp add: submit_method_def json_quote_def quote_single_def escape_unit_def
                    is_high_surrogate_def is_low_surrogate_def js_comma_def)
  qed (use tr in \<open>simp_all add: callback_events_def\<close>)
qed

lemma submitBlob_try_Inr_reports:
  "snd (submitBlob_try w S g True) = Inr b \<Longrightarrow>
     fst (submitBlob_try w S g True) \<noteq> [] \<and> is_callback (last (fst (submitBlob_try w S g True)))"
proof (cases rule: submitBlob_try_cases[of g w S True])
  case (data c d)
  show "snd (submitBlob_try w S g True) = Inr b \<Longrightarrow> ?thesis"
    by (auto simp: data(4) submit_response_def Let_def callback_events_def
             split: prod.split sum.split)
qed (simp_all add: callback_events_def)

text \<open>Claim C13: with a callback, every run of the handler ends by reporting to the user:
  the last event of the trace is a callback call, on success, on no data and on every
  error.\<close>

theorem submitBlob_ends_with_report:
  "is_callback (last (fst (submitBlob_handler w S g True)))"
proof -
  obtain ev r where tr: "submitBlob_try w S g True = (ev, r)" by (rule prod.exhaust)
  show ?thesis
  proof (cases r)
    case (Inl e)
    with tr show ?thesis by (simp add: submitBlob_handler_cases callback_events_def)
  next
    case (Inr b)
    with tr submitBlob_try_Inr_reports[of w S g b] show ?thesis
      by (simp add: submitBlob_handler_cases)
  qed
qed

subsection \<open>Witnesses\<close>

lemma demo_settings_simps:
  "demo_settings ''CELESTIA_LIGHT_NODE_RPC_URL'' = Some node_url"
  "demo_settings ''CELESTIA_AI_AGENT_NAMESPACE'' = Some (js_of_ascii ''0x42690c204d39600fddd3'')"
  "demo_settings ''CELESTIA_DEFAULT_TX_FEE'' = Some (js_of_ascii ''0.002'')"
  by (simp_all add: demo_settings_def)

lemma hello_data:
  "optional_data hello_content = Val (JStr (js_of_ascii ''Hello World!''))"
  "js_truthy (Val (JStr (js_of_ascii ''Hello World!'')))"
  by (simp_all add: optional_data_def hello_content_def)

text \<open>The model answers \<open>{"data": null}\<close>, as the prompt asks when it finds no data.\<close>

theorem submitBlob_no_data_witness:
  "submitBlob_handler (demo_world tx_response) demo_settings
     (Inr (Val (JObj [(js_of_ascii ''data'', JNull)]))) True =
   ([Log ''Starting SUBMIT_BLOB handler...'', Log ''No data to submit''] @
      callback_events True (js_of_ascii ''No data to submit'') [], False)"
  by (rule submitBlob_no_data) (simp add: optional_data_def)

text \<open>The specification's scenario: payload \<open>Hello World!\<close>, answer \<open>ABC123\<close>; the
  report ends in \<open>/tx/ABC123\<close>.\<close>

theorem submitBlob_success_witness:
  "submitBlob_handler (demo_world tx_response) demo_settings (Inr hello_content) True =
     ([Log ''Starting SUBMIT_BLOB handler...'', Exec GET_AUTH_KEY_COMMAND,
       HttpPost node_url (request_headers (js_trim (js_of_ascii ''tok'')))
         (json_stringify (rpc_request (js_of_ascii ''state.SubmitPayForBlob'')
            [JArr [JObj [(js_of_ascii ''namespace_id'', setting_json (demo_settings ''CELESTIA_AI_AGENT_NAMESPACE'')),
                         (js_of_ascii ''data'', JStr (js_of_ascii (encode_value (JStr (js_of_ascii ''Hello World!'')))))]],
             JObj [(js_of_ascii ''gas_price'', setting_json (demo_settings ''CELESTIA_DEFAULT_TX_FEE'')),
                   (js_of_ascii ''is_gas_price_set'', JBool True)]])),
       LogSuccess (success_text (getCeleniumURL (js_to_string (Val (JStr (js_of_ascii ''ABC123''))))))] @
      callback_events True (success_text (getCeleniumURL (js_to_string (Val (JStr (js_of_ascii ''ABC123'')))))) [],
      True) \<and>
   success_text (getCeleniumURL (js_to_string (Val (JStr (js_of_ascii ''ABC123''))))) =
     js_of_ascii ''Blob submitted successfully! Check it out on Celenium: https://mocha-4.celenium.io/tx/ABC123''"
proof
  show "success_text (getCeleniumURL (js_to_string (Val (JStr (js_of_ascii ''ABC123''))))) =
     js_of_ascii ''Blob submitted successfully! Check it out on Celenium: https://mocha-4.celenium.io/tx/ABC123''"
    by (simp only: js_to_string.simps json_to_string.simps success_text_def getCeleniumURL_def
                   js_of_ascii_simps(3)[symmetric] append_assoc) simp
qed (rule submitBlob_success,
     (simp add: hello_data demo_settings_simps isURL_node_url demo_world_def
                tx_hash_of_def tx_response_def)+)

text \<open>The node answers \<open>{"jsonrpc":"2.0","id":1}\<close>.\<close>

theorem submitBlob_empty_result_fails_witness:
  "snd (submitBlob_handler (demo_world body_without_result) demo_settings (Inr hello_content) True) = False \<and>
   drop 3 (fst (submitBlob_handler (demo_world body_without_result) demo_settings (Inr hello_content) True)) =
     LogError ''Error during blob submission:''
       (TypeError (''Cannot read properties of undefined (reading '' @ [CHR 0x27] @ ''tx_hash'' @ [CHR 0x27] @ '')'')) #
     callback_events True (js_of_ascii ''Error during blob submission'')
       [(''error'', js_of_ascii (''Cannot read properties of undefined (reading '' @ [CHR 0x27] @ ''tx_hash'' @ [CHR 0x27] @ '')''))]"
proof (rule submitBlob_empty_result_fails[where res = Undefined])
  show "js_get (Val body_without_result) ''result'' = Inr Undefined"
    by (simp add: body_without_result_def)
qed (simp add: hello_data demo_settings_simps isURL_node_url demo_world_def)+

theorem submitBlob_missing_tx_hash_witness:
  "snd (submitBlob_handler (demo_world no_hash_response) demo_settings (Inr hello_content) True) = True \<and>
   last (fst (submitBlob_handler (demo_world no_hash_response) demo_settings (Inr hello_content) True)) =
     Callback (js_of_ascii
       ''Blob submitted successfully! Check it out on Celenium: https://mocha-4.celenium.io/tx/undefined'') []"
  by (rule submitBlob_missing_tx_hash)
     (simp add: hello_data demo_settings_simps isURL_node_url demo_world_def
                tx_hash_of_def no_hash_response_def)+

text \<open>The configuration is only in the environment: \<open>validate\<close> accepts it, and the
  handler, reading \<open>getSetting\<close>, fails with \<open>bad_request\<close>.\<close>

theorem submitBlob_setting_missing_witness:
  "submitBlob_validate (\<lambda>_. None) demo_settings = Inr True \<and>
   submitBlob_handler (demo_world tx_response) (\<lambda>_. None) (Inr hello_content) True =
     ([Log ''Starting SUBMIT_BLOB handler...'',
       LogError ''Error during blob submission:'' (Error ''bad_request'')] @
      callback_events True (js_of_ascii ''Error during blob submission'') [(''error'', js_of_ascii ''bad_request'')],
      False)"
proof
  show "submitBlob_validate (\<lambda>_. None) demo_settings = Inr True"
    by (simp add: submitBlob_validate_def validate_eval demo_settings_simps node_url_def rounds_to_zero_def)
qed (rule submitBlob_setting_missing, (simp add: hello_data)+)

text \<open>The body sent for \<open>Hello World!\<close> with the deployment's namespace and fee.\<close>

theorem submitBlob_request_body_witness:
  \<open>\<exists>h b. HttpPost node_url h b \<in> set (fst (submitBlob_handler (demo_world tx_response) demo_settings (Inr hello_content) True)) \<and>
     b = js_of_ascii ''{"jsonrpc":"2.0","id":1,"method":"state.SubmitPayForBlob","params":[[{"namespace_id":"0x42690c204d39600fddd3","data":"IkhlbGxvIFdvcmxkISI="}],{"gas_price":"0.002","is_gas_price_set":true}]}''\<close>
proof -
  let ?B = "json_stringify (rpc_request submit_method (submit_params (demo_settings ''CELESTIA_AI_AGENT_NAMESPACE'')
              (encode_value (JStr (js_of_ascii ''Hello World!''))) (demo_settings ''CELESTIA_DEFAULT_TX_FEE'')))"
  let ?h = "request_headers (js_trim (js_of_ascii ''tok''))"
  let ?ev = "[Exec GET_AUTH_KEY_COMMAND, HttpPost node_url ?h ?B]"
  have "fst (submitBlob_try (demo_world tx_response) demo_settings (Inr hello_content) True) =
          fst (submit_response True (?ev, rpc_outcome (fetch_out (demo_world tx_response))))"
    by (simp add: submitBlob_try_data[OF hello_data] celestiaRequest_valid isURL_node_url
                  demo_settings_simps demo_world_def)
  moreover obtain tl where "fst (submit_response True (?ev, rpc_outcome (fetch_out (demo_world tx_response)))) =
                              ?ev @ tl"
    using submit_response_prefix by blast
  ultimately have mem: "HttpPost node_url ?h ?B \<in> set (fst (submitBlob_handler (demo_world tx_response) demo_settings (Inr hello_content) True))"
    using submitBlob_try_events_in_handler by fastforce
  have enc: "encode_value (JStr (js_of_ascii ''Hello World!'')) = ''IkhlbGxvIFdvcmxkISI=''"
    by (simp add: encode_value_def json_quote_def quote_single_def escape_unit_def
        is_high_surrogate_def is_low_surrogate_def buffer_from_string_def unit_code_point_def
        utf8_encode_cp_def b64_char_def b64_alphabet_def)
  from submitBlob_request_body[OF mem] enc hello_data(1) show ?thesis
    using mem by (auto simp: demo_settings_simps setting_json_def json_quote_def quote_single_def
                             escape_unit_def is_high_surrogate_def is_low_surrogate_def)
qed

end
