(* ===== verification/Plugin.thy ===== *)
theory Plugin
  imports SubmitBlob
begin

text \<open>
  The action object of \<open>src/packages/plugin-celestia/src/actions/submitBlob.ts\<close> and the
  plugin object of \<open>src/packages/plugin-celestia/src/index.ts\<close>. The action carries its
  name, similes, description, the prompt template the handler gives the language model
  (\<open>submitBlobTemplate\<close>), the example conversations, and its two entry points
  \<open>validate\<close> and \<open>handler\<close> as the functions \<open>submitBlob_validate\<close> and
  \<open>submitBlob_handler\<close>. Providers, evaluators and services are elizaOS objects; the
  plugin declares none, so their types are left abstract. The lemma relates the two entry
  points: \<open>validate\<close> never looks at the endpoint's form, the handler rejects a
  non-URL endpoint.
\<close>

typedecl provider
typedecl evaluator
typedecl service

subsection \<open>The prompt template\<close>

text \<open>The template literal of lines 18 to 32, one string per line (\<open>`\<close> is code 0x60,
  \<open>"\<close> is code 0x22).\<close>

definition submitBlobTemplate :: string where
  "submitBlobTemplate = js_join [CHR 0x0A]
     [''Respond with a JSON markdown block containing only the extracted values. Use null for any values that cannot be determined.'',
      '''',
      ''Example response:'',
      [CHR 0x60, CHR 0x60, CHR 0x60] @ ''json'',
      ''{'',
      ''    '' @ [CHR 0x22] @ ''data'' @ [CHR 0x22] @ '': '' @ [CHR 0x22] @
        ''Hello World, this is the data I submitted'' @ [CHR 0x22],
      ''}'',
      [CHR 0x60, CHR 0x60, CHR 0x60],
      '''',
      ''{{recentMessages}}'',
      '''',
      ''Given the recent messages, extract the following information about the requested Celestia blob submission:'',
      ''- Data to be submitted'',
      '''',
      ''Respond with a JSON markdown block containing only the extracted values.'']"

subsection \<open>The action\<close>

record example_message =
  ex_user :: string
  ex_text :: string
  ex_action :: "string option"

definition example_reply :: string where
  "example_reply = ''Blob submitted successfully! Check it out on Celenium: https://mocha-4.celenium.io/tx/6AA8D09F878A03FEB541AB035A55568068587F59D7350C8C34D55779B71D30A4''"

definition submitBlob_examples :: "example_message list list" where
  "submitBlob_examples =
     [[\<lparr>ex_user = ''{{user1}}'',
        ex_text = ''Submit the following data to Celestia '' @ [CHR 0x27] @ ''Hello World!'' @ [CHR 0x27],
        ex_action = None\<rparr>,
       \<lparr>ex_user = ''{{agent}}'',
        ex_text = ''Sure, I will send the data '' @ [CHR 0x27] @ ''Hello World!'' @ [CHR 0x27] @ '' to Celestia now.'',
        ex_action = Some ''SUBMIT_BLOB''\<rparr>,
       \<lparr>ex_user = ''{{agent}}'', ex_text = example_reply, ex_action = None\<rparr>],
      [\<lparr>ex_user = ''{{user1}}'',
        ex_text = ''Submit '' @ [CHR 0x27] @ ''Slow, big, ..., unstoppable'' @ [CHR 0x27] @ '' to Celestia'',
        ex_action = None\<rparr>,
       \<lparr>ex_user = ''{{agent}}'',
        ex_text = ''Sure, I will send the data '' @ [CHR 0x27] @ ''Slow, big, ..., unstoppable'' @ [CHR 0x27] @
                  '' to Celestia now.'',
        ex_action = Some ''SUBMIT_BLOB''\<rparr>,
       \<lparr>ex_user = ''{{agent}}'', ex_text = example_reply, ex_action = None\<rparr>]]"

record action =
  action_name :: string
  action_similes :: "string list"
  action_validate :: "lookup \<Rightarrow> lookup \<Rightarrow> js_error + bool"
  action_description :: string
  action_handler :: "world \<Rightarrow> lookup \<Rightarrow> js_error + jsval \<Rightarrow> bool \<Rightarrow> event list \<times> bool"
  action_examples :: "example_message list list"

definition submitBlob_action :: action where
  "submitBlob_action =
     \<lparr>action_name = ''SUBMIT_BLOB'',
      action_similes = [''SUBMIT_BLOB_TO_CELESTIA'', ''SEND_BLOB'', ''SUBMIT_BLOB''],
      action_validate = submitBlob_validate,
      action_description = ''Submit a blob to Celestia'',
      action_handler = submitBlob_handler,
      action_examples = submitBlob_examples\<rparr>"

subsection \<open>The plugin\<close>

record plugin =
  plugin_name :: string
  plugin_description :: string
  plugin_providers :: "provider list"
  plugin_evaluators :: "evaluator list"
  plugin_services :: "service list"
  plugin_actions :: "action list"

definition celestiaPlugin :: plugin where
  "celestiaPlugin =
     \<lparr>plugin_name = ''celestia'', plugin_description = ''Celestia DA integration plugin'',
      plugin_providers = [], plugin_evaluators = [], plugin_services = [],
      plugin_actions = [submitBlob_action]\<rparr>"

subsection \<open>Example inputs\<close>

text \<open>A deployment whose endpoint setting is the specification's invalid endpoint
  \<open>not a url\<close>.\<close>

definition not_url_settings :: lookup where
  "not_url_settings k =
     (if k = ''CELESTIA_LIGHT_NODE_RPC_URL'' then Some (js_of_ascii ''not a url'')
      else demo_settings k)"

subsection \<open>Properties\<close>

text \<open>Claim C25: the action's \<open>validate\<close> and \<open>handler\<close> disagree on the endpoint.
  For an endpoint setting that is a non-empty string but not a URL, \<open>validate\<close>
  accepts exactly when the namespace and the fee are valid: the endpoint's form plays no
  part. The handler, given data, then fails with \<open>bad_request\<close> before running the
  token command or sending a request.\<close>

theorem validate_accepts_invalid_url:
  assumes "S ''CELESTIA_LIGHT_NODE_RPC_URL'' = Some u" "u \<noteq> []" "\<not> isURL (Some u)"
    and "optional_data c = Val d" "js_truthy (Val d)"
  shows "(action_validate submitBlob_action S E = Inr True \<longleftrightarrow>
            setting_or_env S E ''CELESTIA_AI_AGENT_NAMESPACE'' \<notin> {None, Some []} \<and>
            parseFloat_value (setting_or_env S E ''CELESTIA_DEFAULT_TX_FEE'') \<noteq> NaN \<and>
            \<not> num_is_negative (parseFloat_value (setting_or_env S E ''CELESTIA_DEFAULT_TX_FEE''))) \<and>
         action_handler submitBlob_action w S (Inr c) cb =
           ([Log ''Starting SUBMIT_BLOB handler...'',
             LogError ''Error during blob submission:'' (Error ''bad_request'')] @
            callback_events cb (js_of_ascii ''Error during blob submission'')
              [(''error'', js_of_ascii ''bad_request'')],
            False)"
proof
  have "action_validate submitBlob_action S E = Inr True \<longleftrightarrow> (\<exists>cfg. validateCelestiaConfig S E = Inr cfg)"
    by (auto simp: submitBlob_action_def submitBlob_validate_def split: sum.splits)
  moreover have "setting_or_env S E ''CELESTIA_LIGHT_NODE_RPC_URL'' = Some u"
    using assms(1,2) by (simp add: setting_or_env_def)
  ultimately show "action_validate submitBlob_action S E = Inr True \<longleftrightarrow>
            setting_or_env S E ''CELESTIA_AI_AGENT_NAMESPACE'' \<notin> {None, Some []} \<and>
            parseFloat_value (setting_or_env S E ''CELESTIA_DEFAULT_TX_FEE'') \<noteq> NaN \<and>
            \<not> num_is_negative (parseFloat_value (setting_or_env S E ''CELESTIA_DEFAULT_TX_FEE''))"
    using assms(2) by (simp add: validate_accepts_iff)
next
  have "submitBlob_try w S (Inr c) cb = ([], Inl (Error ''bad_request''))"
    using assms by (simp add: submitBlob_try_data celestiaRequest_invalid submit_response_def)
  then show "action_handler submitBlob_action w S (Inr c) cb =
           ([Log ''Starting SUBMIT_BLOB handler...'',
             LogError ''Error during blob submission:'' (Error ''bad_request'')] @
            callback_events cb (js_of_ascii ''Error during blob submission'')
              [(''error'', js_of_ascii ''bad_request'')],
            False)"
    by (simp add: submitBlob_action_def submitBlob_handler_cases)
qed

subsection \<open>Witnesses\<close>

text \<open>The specification's invalid endpoint \<open>not a url\<close> in an otherwise valid
  deployment: \<open>validate\<close> accepts, the handler fails.\<close>

theorem validate_accepts_invalid_url_witness:
  "action_validate submitBlob_action not_url_settings (\<lambda>_. None) = Inr True \<and>
   snd (action_handler submitBlob_action (demo_world tx_response) not_url_settings (Inr hello_content) True) = False"
proof -
  have u: "not_url_settings ''CELESTIA_LIGHT_NODE_RPC_URL'' = Some (js_of_ascii ''not a url'')"
    by (simp add: not_url_settings_def)
  have nu: "\<not> isURL (Some (js_of_ascii ''not a url''))"
    using isURL_examples by simp
  have ok: "setting_or_env not_url_settings (\<lambda>_. None) ''CELESTIA_AI_AGENT_NAMESPACE'' \<notin> {None, Some []} \<and>
            parseFloat_value (setting_or_env not_url_settings (\<lambda>_. None) ''CELESTIA_DEFAULT_TX_FEE'') \<noteq> NaN \<and>
            \<not> num_is_negative (parseFloat_value (setting_or_env not_url_settings (\<lambda>_. None) ''CELESTIA_DEFAULT_TX_FEE''))"
    by (simp add: validate_eval not_url_settings_def demo_settings_def rounds_to_zero_def)
  have ne: "js_of_ascii ''not a url'' \<noteq> []" by simp
  show ?thesis
    using validate_accepts_invalid_url[where S = not_url_settings and u = "js_of_ascii ''not a url''"
            and E = "\<lambda>_. None" and w = "demo_world tx_response" and cb = True and c = hello_content
            and d = "JStr (js_of_ascii ''Hello World!'')", OF u ne nu hello_data] ok
    by simp
qed

end
