(* ===== verification/Spec2Isabelle.thy ===== *)
theory Spec2Isabelle
  imports Plugin
begin

text \<open>
  A verification development of the Celestia plugin,
  \<open>src/packages/plugin-celestia/src/\<close>. The plugin has one action, \<open>SUBMIT_BLOB\<close>:
  its \<open>validate\<close> checks the configuration (\<open>environment.ts\<close>), and its handler
  (\<open>actions/submitBlob.ts\<close>) takes a payload from the language model, encodes it
  (\<open>functions/encodeDataToBase64String.ts\<close>), submits it through the DA client
  (\<open>functions/celestiaRequest.ts\<close>), which fetches a bearer token by running a command
  (\<open>functions/fetchAuthKeyFromLightNode.ts\<close>) and POSTs one JSON-RPC request, and
  reports the explorer link of the transaction (\<open>functions/getCeleniumURL.ts\<close>).
  \<open>index.ts\<close> registers the action in the plugin record.

  \<^bold>\<open>Theories.\<close>
  \<^item> \<open>Prelude\<close>: JavaScript strings as lists of UTF-16 code units (\<open>jstr\<close>), bytes as
    \<open>8 word\<close> lists, the exceptions \<open>js_error\<close>, white space, \<open>Array.join\<close>, and the
    shared word and digit lemmas.
  \<^item> \<open>Base64\<close>, \<open>Utf8\<close>, \<open>JsonString\<close>, \<open>Encoder\<close>: the blob encoder,
    \<open>encodeDataToBase64String\<close> = \<open>base64_encode\<close> of \<open>buffer_from_string\<close> (Node's UTF-8
    with U+FFFD for lone surrogates) of \<open>json_quote\<close> (ECMAScript QuoteJSONString). Each
    step has its strict inverse (\<open>base64_decode\<close>, \<open>utf8_to_string\<close>,
    \<open>json_parse_string\<close>); the lemmas are the round trips, the length and alphabet of the
    base64 text, the canonicity of base64 text (the decoder accepts exactly the encoder's
    outputs), and what \<open>Buffer.from\<close> keeps of any string (its \<open>toWellFormed\<close>
    form). The composed round trip holds for every string, lone surrogates included,
    because the JSON text is well-formed UTF-16.
  \<^item> \<open>JsNumber\<close>: numbers as exact decimals \<open>Dec neg m e\<close> read by \<open>parseFloat\<close> (longest
    numeric prefix, leading white space, \<open>Infinity\<close>). The binary64 rounding is observed
    only through zero and infinity: \<open>rounds_to_zero\<close> and \<open>rounds_to_infinity\<close> are
    proved equal to the exact rational conditions \<open>|x| \<le> 2^-1075\<close> and
    \<open>|x| \<ge> 2^1024 - 2^970\<close>. Their fast paths (no zero below 301 fractional digits, no
    overflow with at most 300 integer digits) avoid computing the large powers. A digit
    string followed by a character that cannot continue a decimal literal is read as
    that integer (the longest numeric prefix).
  \<^item> \<open>Config\<close>: \<open>validateCelestiaConfig\<close>, that is \<open>getSetting(k) || process.env[k]\<close>,
    \<open>parseFloat\<close> of the fee, and the zod schema. The schema collects every issue in key
    order, and one \<open>Error\<close> lists them all. The lemmas characterise success exactly, show the issues are
    aggregated, show that only the numeric prefix of the fee text counts, and show
    that a negative fee passes exactly when its magnitude is at most \<open>2^-1075\<close>
    (it rounds to \<open>-0\<close>).
  \<^item> \<open>Json\<close>, \<open>Runtime\<close>: JSON values, \<open>JSON.stringify\<close>, property reads with their
    \<open>TypeError\<close>, ToBoolean and ToString. The outside world is a record \<open>world\<close>:
    the outcome of the command and the response of the POST. The plugin's effects form
    a trace of \<open>event\<close>s: commands run, requests sent, log lines, and callback calls.
  \<^item> \<open>AuthToken\<close>: \<open>fetchAuthKeyFromLightNode\<close> runs one command per call and trims its
    output; the lemmas are about \<open>String.prototype.trim\<close>.
  \<^item> \<open>DAClient\<close>: \<open>celestiaRequest\<close>. Its result refines the specification's contract
    \<open>da_spec\<close>; the lemmas cover fail-fast on a bad endpoint, the exact request and
    its JSON text, the trimmed bearer token, the normalisation of an empty result, and
    the order of the trace.
  \<^item> \<open>SubmitBlob\<close>: the handler as \<open>submitBlob_try\<close> (the \<open>try\<close> block) and
    \<open>submitBlob_handler\<close> (with the \<open>catch\<close>), and \<open>validate\<close>. The lemmas cover:
    \<^item> exactly one callback, \<open>true\<close> exactly when a success was logged, and a run with
      a callback always ending with it;
    \<^item> the no-data branch, and the success run;
    \<^item> the failure after an empty result, and the link \<open>tx/undefined\<close>;
    \<^item> the unused environment fallback, and the order of command and request;
    \<^item> the exact JSON text of every request body the handler sends.
  \<^item> \<open>Plugin\<close>: the action object (name, similes, \<open>validate\<close>, description, handler, the
    prompt template and the example conversations) and the plugin object of
    \<open>index.ts\<close>. The lemma shows that for every endpoint that is not a URL,
    \<open>validate\<close>'s verdict ignores the endpoint while the handler rejects it.

  \<^bold>\<open>Inputs from outside.\<close> The language model's answer (or the error that composing the
  state or generating threw) is a parameter of the handler. \<open>getSetting\<close> and
  \<open>process.env\<close> are lookups, with \<open>None\<close> for \<open>null\<close>. The command's outcome and the
  HTTP response are fields of the \<open>world\<close>. The general theorems quantify over all of
  them; the concrete ones fix a deployment (\<open>demo_settings\<close>, \<open>demo_world\<close>).

  \<^bold>\<open>Not modelled.\<close>
  \<^item> The elizaOS framework (\<open>composeState\<close>, \<open>composeContext\<close>, the language model, the
    logger's formatting) is external code: only its results enter the model. The prompt
    template and the examples are modelled as data; how \<open>composeContext\<close> fills the
    template and what the model answers are not.
  \<^item> \<open>utils/isURL.js\<close> is not in the sources; \<open>isURL\<close> is modelled from the
    specification (scheme, \<open>://\<close>, host).
  \<^item> The HTTP status is never read by the code, so the world does not carry it.
  \<^item> Number::toString's search for the shortest round-trip digits is not modelled: the
    text of a number is exact for the decimals the plugin meets.
  \<^item> A callback that throws, and the callback's asynchronous completion, are not
    modelled.
  \<^item> A JSON object is an association list, so a key may occur twice; reads take the last
    member, and printing follows the object JavaScript builds from the members.
\<close>

end
